theory Spec2Isabelle
  imports Complex_Main "HOL-Library.Word"
begin


section \<open>Primitive types\<close>

text \<open>
  A Go \<^verbatim>\<open>float64\<close> is either the not-a-number sentinel, an infinity, or a finite
  number. The carrier of the finite values is the reals: the program only compares
  floating-point values and converts integers to them, it never adds or multiplies
  them, so the only rounding is that of the conversion of a large integer. The comparisons follow IEEE 754 as
  Go implements them: every ordered comparison with a NaN operand is false.
\<close>

datatype float64 = NaN | NegInf | Finite real | PosInf

fun IsNaN :: "float64 \<Rightarrow> bool" where
  "IsNaN NaN = True"
| "IsNaN NegInf = False"
| "IsNaN (Finite x) = False"
| "IsNaN PosInf = False"

text \<open>\<^verbatim>\<open>a < b\<close> on \<^verbatim>\<open>float64\<close>.\<close>

fun f64_lt :: "float64 \<Rightarrow> float64 \<Rightarrow> bool" where
  "f64_lt NaN b = False"
| "f64_lt NegInf NaN = False"
| "f64_lt NegInf NegInf = False"
| "f64_lt NegInf (Finite y) = True"
| "f64_lt NegInf PosInf = True"
| "f64_lt (Finite x) NaN = False"
| "f64_lt (Finite x) NegInf = False"
| "f64_lt (Finite x) (Finite y) = (x < y)"
| "f64_lt (Finite x) PosInf = True"
| "f64_lt PosInf b = False"

text \<open>\<^verbatim>\<open>a <= b\<close> on \<^verbatim>\<open>float64\<close>.\<close>

fun f64_le :: "float64 \<Rightarrow> float64 \<Rightarrow> bool" where
  "f64_le NaN b = False"
| "f64_le NegInf NaN = False"
| "f64_le NegInf NegInf = True"
| "f64_le NegInf (Finite y) = True"
| "f64_le NegInf PosInf = True"
| "f64_le (Finite x) NaN = False"
| "f64_le (Finite x) NegInf = False"
| "f64_le (Finite x) (Finite y) = (x \<le> y)"
| "f64_le (Finite x) PosInf = True"
| "f64_le PosInf NaN = False"
| "f64_le PosInf NegInf = False"
| "f64_le PosInf (Finite y) = False"
| "f64_le PosInf PosInf = True"

text \<open>\<^verbatim>\<open>a > b\<close> and \<^verbatim>\<open>a >= b\<close>.\<close>

definition f64_gt :: "float64 \<Rightarrow> float64 \<Rightarrow> bool" where
  "f64_gt a b = f64_lt b a"

definition f64_ge :: "float64 \<Rightarrow> float64 \<Rightarrow> bool" where
  "f64_ge a b = f64_le b a"

text \<open>
  The conversion \<^verbatim>\<open>float64(i)\<close> of an integer. An integer of magnitude below
  \<open>2^53\<close> is a \<^verbatim>\<open>float64\<close>; a larger one (of at most 64 bits here) is rounded to
  53 significant bits, to the nearest value and to the even one on a tie. \<open>bitlen n\<close> is
  the number of bits of \<open>n\<close>.
\<close>

function bitlen :: "int \<Rightarrow> nat" where
  "bitlen n = (if n \<le> 0 then 0 else Suc (bitlen (n div 2)))"
  by pat_completeness auto
termination
  by (relation "measure nat") auto

declare bitlen.simps [simp del]

definition float64_of_int :: "int \<Rightarrow> float64" where
  "float64_of_int i =
     (if \<bar>i\<bar> < 2 ^ 53 then Finite (of_int i)
      else let e = bitlen \<bar>i\<bar> - 53;
               q = \<bar>i\<bar> div 2 ^ e;
               r = \<bar>i\<bar> mod 2 ^ e;
               q' = (if 2 ^ e < 2 * r \<or> (2 * r = 2 ^ e \<and> odd q) then q + 1 else q)
           in Finite (of_int (sgn i * q' * 2 ^ e)))"

text \<open>
  \<^verbatim>\<open>time.Time\<close> and \<^verbatim>\<open>time.Duration\<close> are counts of nanoseconds. The wall clock
  (\<^verbatim>\<open>time.Now()\<close>) is an argument of every function that reads it. A \<^verbatim>\<open>time.Time\<close>
  holds its seconds in 64 bits of their own, so that \<^verbatim>\<open>t.Add(d)\<close> is the sum \<open>t + d\<close>
  for every reading of the clock and every duration; a duration is a 64-bit signed
  integer, and its negation wraps.
\<close>

type_synonym time = int
type_synonym duration = int

text \<open>
  The negation \<^verbatim>\<open>-d\<close> of a \<^verbatim>\<open>time.Duration\<close>, a 64-bit signed integer: it wraps, so
  that the negation of the least duration is that duration itself.
\<close>

definition neg_duration :: "duration \<Rightarrow> duration" where
  "neg_duration d = sint (- (word_of_int d :: 64 word))"

section \<open>Event model\<close>

text \<open>The three reserved meta-event types.\<close>

definition EventTypeHandlerAdded :: string where
  "EventTypeHandlerAdded = ''listener-add''"

definition EventTypeHandlerRemoved :: string where
  "EventTypeHandlerRemoved = ''listener-remove''"

definition EventTypeHandlerError :: string where
  "EventTypeHandlerError = ''listener-error''"

text \<open>The struct \<^verbatim>\<open>ListenerMeta\<close>, the payload of the sink's meta-events.\<close>

record ListenerMeta =
  EventType :: string
  HandlerID :: int
  Error :: string

text \<open>
  A payload is a Go \<^verbatim>\<open>interface{}\<close> value, that is a value together with its dynamic
  type. \<open>NewEvent\<close> switches on that type, so there is one constructor for each type
  it names: the twelve numeric primitives with their widths, \<^verbatim>\<open>string\<close>, and
  \<^verbatim>\<open>map[string]interface{}\<close>. \<open>PNil\<close> is the nil interface, \<open>PListenerMeta\<close> a
  \<^verbatim>\<open>*ListenerMeta\<close>. \<open>PObject v s\<close> is a value of any other type: \<open>v\<close> is the result of
  its \<^verbatim>\<open>GetValue()\<close> when the type implements \<^verbatim>\<open>Valuer\<close>, and \<open>s\<close> the result of its
  \<^verbatim>\<open>String()\<close> when it implements \<^verbatim>\<open>fmt.Stringer\<close>. Go's \<^verbatim>\<open>int\<close> and \<^verbatim>\<open>uint\<close> are
  64 bits wide.
\<close>

datatype payload =
    PNil
  | PFloat64 float64
  | PFloat32 float64
  | PInt "64 word"
  | PInt64 "64 word"
  | PInt32 "32 word"
  | PInt16 "16 word"
  | PInt8 "8 word"
  | PUint "64 word"
  | PUint64 "64 word"
  | PUint32 "32 word"
  | PUint16 "16 word"
  | PUint8 "8 word"
  | PString string
  | PMap "string \<Rightarrow> payload option"
  | PListenerMeta ListenerMeta
  | PObject "float64 option" "string option"

record basicEvent =
  Type :: string
  Time :: time
  Data :: payload

text \<open>
  \<^verbatim>\<open>valueEvent\<close> and \<^verbatim>\<open>messageEvent\<close> embed an \<^verbatim>\<open>Event\<close> interface value and add one
  field; the methods of the embedded event are promoted.
\<close>

datatype event =
    BasicEvent basicEvent
  | ValueEvent event float64
  | MessageEvent event string

fun GetType :: "event \<Rightarrow> string" where
  "GetType (BasicEvent ev) = Type ev"
| "GetType (ValueEvent ev v) = GetType ev"
| "GetType (MessageEvent ev m) = GetType ev"

fun GetTime :: "event \<Rightarrow> time" where
  "GetTime (BasicEvent ev) = Time ev"
| "GetTime (ValueEvent ev v) = GetTime ev"
| "GetTime (MessageEvent ev m) = GetTime ev"

fun GetData :: "event \<Rightarrow> payload" where
  "GetData (BasicEvent ev) = Data ev"
| "GetData (ValueEvent ev v) = GetData ev"
| "GetData (MessageEvent ev m) = GetData ev"

text \<open>
  \<^verbatim>\<open>GetValue\<close> exists on a \<^verbatim>\<open>*valueEvent\<close> only and \<^verbatim>\<open>GetMessage\<close> on a
  \<^verbatim>\<open>*messageEvent\<close> only (an embedded interface promotes the methods of the
  interface, not those of the value inside): the type assertions \<^verbatim>\<open>ev.(ValueEvent)\<close>
  and \<^verbatim>\<open>ev.(MessageEvent)\<close> succeed exactly on these.
\<close>

fun GetValue :: "event \<Rightarrow> float64 option" where
  "GetValue (BasicEvent ev) = None"
| "GetValue (ValueEvent ev v) = Some v"
| "GetValue (MessageEvent ev m) = None"

fun GetMessage :: "event \<Rightarrow> string option" where
  "GetMessage (BasicEvent ev) = None"
| "GetMessage (ValueEvent ev v) = None"
| "GetMessage (MessageEvent ev m) = Some m"

text \<open>The concrete specialization of an event: its dynamic type.\<close>

datatype kind = Plain | Value | Message

fun kind_of :: "event \<Rightarrow> kind" where
  "kind_of (BasicEvent ev) = Plain"
| "kind_of (ValueEvent ev v) = Value"
| "kind_of (MessageEvent ev m) = Message"

fun As :: "event \<Rightarrow> string \<Rightarrow> event" where
  "As (BasicEvent ev) eventType =
     BasicEvent \<lparr>Type = eventType, Time = Time ev, Data = Data ev\<rparr>"
| "As (ValueEvent ev v) eventType = ValueEvent (As ev eventType) v"
| "As (MessageEvent ev m) eventType = MessageEvent (As ev eventType) m"

text \<open>
  The type switch of \<open>NewEvent\<close> on the \<^verbatim>\<open>"value"\<close> entry of a map payload. \<open>None\<close>: no
  case matched, and control falls out of the switch.
\<close>

fun value_switch :: "event \<Rightarrow> payload \<Rightarrow> event option" where
  "value_switch base (PFloat64 tval) = Some (ValueEvent base tval)"
| "value_switch base (PFloat32 tval) = Some (ValueEvent base tval)"
| "value_switch base (PInt tval) = Some (ValueEvent base (float64_of_int (sint tval)))"
| "value_switch base (PInt64 tval) = Some (ValueEvent base (float64_of_int (sint tval)))"
| "value_switch base (PInt32 tval) = Some (ValueEvent base (float64_of_int (sint tval)))"
| "value_switch base (PInt16 tval) = Some (ValueEvent base (float64_of_int (sint tval)))"
| "value_switch base (PInt8 tval) = Some (ValueEvent base (float64_of_int (sint tval)))"
| "value_switch base (PUint tval) = Some (ValueEvent base (float64_of_int (uint tval)))"
| "value_switch base (PUint64 tval) = Some (ValueEvent base (float64_of_int (uint tval)))"
| "value_switch base (PUint32 tval) = Some (ValueEvent base (float64_of_int (uint tval)))"
| "value_switch base (PUint16 tval) = Some (ValueEvent base (float64_of_int (uint tval)))"
| "value_switch base (PUint8 tval) = Some (ValueEvent base (float64_of_int (uint tval)))"
| "value_switch base (PObject (Some v) s) = Some (ValueEvent base v)"
| "value_switch base (PString tval) = Some (MessageEvent base tval)"
| "value_switch base (PObject None (Some s)) = Some (MessageEvent base s)"
| "value_switch base (PObject None None) = None"
| "value_switch base PNil = None"
| "value_switch base (PMap m) = None"
| "value_switch base (PListenerMeta d) = None"

text \<open>The type switch on the \<^verbatim>\<open>"message"\<close> entry.\<close>

fun message_switch :: "event \<Rightarrow> payload \<Rightarrow> event option" where
  "message_switch base (PString tmsg) = Some (MessageEvent base tmsg)"
| "message_switch base (PObject v (Some s)) = Some (MessageEvent base s)"
| "message_switch base msg = None"

text \<open>
  \<open>NewEvent now evtType data\<close>, where \<open>now\<close> is the reading of the clock. For a
  numeric or string payload the \<^verbatim>\<open>Data\<close> field of the base event is left at its
  zero value, the nil interface.
\<close>

fun NewEvent :: "time \<Rightarrow> string \<Rightarrow> payload \<Rightarrow> event" where
  "NewEvent now evtType (PFloat64 tdata) =
     ValueEvent (BasicEvent \<lparr>Type = evtType, Time = now, Data = PNil\<rparr>) tdata"
| "NewEvent now evtType (PFloat32 tdata) =
     ValueEvent (BasicEvent \<lparr>Type = evtType, Time = now, Data = PNil\<rparr>) tdata"
| "NewEvent now evtType (PInt tdata) =
     ValueEvent (BasicEvent \<lparr>Type = evtType, Time = now, Data = PNil\<rparr>) (float64_of_int (sint tdata))"
| "NewEvent now evtType (PInt64 tdata) =
     ValueEvent (BasicEvent \<lparr>Type = evtType, Time = now, Data = PNil\<rparr>) (float64_of_int (sint tdata))"
| "NewEvent now evtType (PInt32 tdata) =
     ValueEvent (BasicEvent \<lparr>Type = evtType, Time = now, Data = PNil\<rparr>) (float64_of_int (sint tdata))"
| "NewEvent now evtType (PInt16 tdata) =
     ValueEvent (BasicEvent \<lparr>Type = evtType, Time = now, Data = PNil\<rparr>) (float64_of_int (sint tdata))"
| "NewEvent now evtType (PInt8 tdata) =
     ValueEvent (BasicEvent \<lparr>Type = evtType, Time = now, Data = PNil\<rparr>) (float64_of_int (sint tdata))"
| "NewEvent now evtType (PUint tdata) =
     ValueEvent (BasicEvent \<lparr>Type = evtType, Time = now, Data = PNil\<rparr>) (float64_of_int (uint tdata))"
| "NewEvent now evtType (PUint64 tdata) =
     ValueEvent (BasicEvent \<lparr>Type = evtType, Time = now, Data = PNil\<rparr>) (float64_of_int (uint tdata))"
| "NewEvent now evtType (PUint32 tdata) =
     ValueEvent (BasicEvent \<lparr>Type = evtType, Time = now, Data = PNil\<rparr>) (float64_of_int (uint tdata))"
| "NewEvent now evtType (PUint16 tdata) =
     ValueEvent (BasicEvent \<lparr>Type = evtType, Time = now, Data = PNil\<rparr>) (float64_of_int (uint tdata))"
| "NewEvent now evtType (PUint8 tdata) =
     ValueEvent (BasicEvent \<lparr>Type = evtType, Time = now, Data = PNil\<rparr>) (float64_of_int (uint tdata))"
| "NewEvent now evtType (PString tdata) =
     MessageEvent (BasicEvent \<lparr>Type = evtType, Time = now, Data = PNil\<rparr>) tdata"
| "NewEvent now evtType (PMap tdata) =
     (let base = BasicEvent \<lparr>Type = evtType, Time = now, Data = PMap tdata\<rparr>;
          fromValue = (case tdata ''value'' of
                         Some val \<Rightarrow> value_switch base val
                       | None \<Rightarrow> None);
          fromMessage = (case tdata ''message'' of
                           Some msg \<Rightarrow> message_switch base msg
                         | None \<Rightarrow> None)
      in case fromValue of
           Some ev \<Rightarrow> ev
         | None \<Rightarrow> (case fromMessage of Some ev \<Rightarrow> ev | None \<Rightarrow> base))"
| "NewEvent now evtType (PObject (Some v) s) =
     ValueEvent (BasicEvent \<lparr>Type = evtType, Time = now, Data = PObject (Some v) s\<rparr>) v"
| "NewEvent now evtType (PObject None (Some s)) =
     MessageEvent (BasicEvent \<lparr>Type = evtType, Time = now, Data = PObject None (Some s)\<rparr>) s"
| "NewEvent now evtType data =
     BasicEvent \<lparr>Type = evtType, Time = now, Data = data\<rparr>"

section \<open>Event handlers\<close>

text \<open>
  A Go \<^verbatim>\<open>error\<close>: the three sentinels of the package, an error made by
  \<^verbatim>\<open>errors.New\<close> elsewhere (a terminal callback's failure), or an error wrapping another
  one. \<open>errors_Is\<close> is \<^verbatim>\<open>errors.Is\<close>: it follows the chain of wrapped errors.
\<close>

datatype error =
    ErrIgnored
  | ErrExpired
  | ErrIncompatibleEvent
  | ErrorNew string
  | ErrorWrap string error

fun errors_Is :: "error \<Rightarrow> error \<Rightarrow> bool" where
  "errors_Is (ErrorWrap msg inner) target =
     (if ErrorWrap msg inner = target then True else errors_Is inner target)"
| "errors_Is err target = (err = target)"

text \<open>The method \<^verbatim>\<open>Error()\<close>.\<close>

fun error_string :: "error \<Rightarrow> string" where
  "error_string ErrIgnored = ''ignored''"
| "error_string ErrExpired = ''expired''"
| "error_string ErrIncompatibleEvent = ''incompatible event''"
| "error_string (ErrorNew msg) = msg"
| "error_string (ErrorWrap msg inner) = msg"

text \<open>\<^verbatim>\<open>Direction\<close> is a string type: any string is a value of it.\<close>

type_synonym Direction = string

definition DirectionNone :: Direction where
  "DirectionNone = []"

definition DirectionIncreasing :: Direction where
  "DirectionIncreasing = ''increasing''"

definition DirectionDecreasing :: Direction where
  "DirectionDecreasing = ''decreasing''"

definition DirectionSteady :: Direction where
  "DirectionSteady = ''steady''"

definition DirectionReverse :: Direction where
  "DirectionReverse = ''reverse''"

text \<open>
  The implementations of the interface \<^verbatim>\<open>EventHandler\<close>, one constructor for each
  struct, with the fields in the order of the source. Every filter embeds the handler it
  wraps. A terminal callback \<^verbatim>\<open>func(Event) error\<close> acts on the world outside the
  program, of type \<open>'w\<close>: it takes the world and returns the new one with its error
  (\<open>None\<close> is \<^verbatim>\<open>nil\<close>).
\<close>

datatype 'w handler =
    BasicEventHandler int "event \<Rightarrow> 'w \<Rightarrow> error option \<times> 'w" "error option"
  | MaxCallsHandler "'w handler" int int
  | TimeoutHandler "'w handler" time
  | DirectionHandler "'w handler" Direction float64 Direction
  | ThresholdHandler "'w handler" Direction float64 float64 bool
  | RangeHandler "'w handler" float64 float64
  | DebounceHandler "'w handler" duration time

text \<open>\<open>NewEventHandler\<close> draws the identity from \<^verbatim>\<open>rand.Int63()\<close>, here \<open>rnd\<close>.\<close>

definition NewEventHandler :: "int \<Rightarrow> (event \<Rightarrow> 'w \<Rightarrow> error option \<times> 'w) \<Rightarrow> 'w handler" where
  "NewEventHandler rnd f = BasicEventHandler rnd f None"

definition HandlerReference :: "int \<Rightarrow> 'w handler" where
  "HandlerReference i =
     BasicEventHandler i (\<lambda>ev w. (Some (ErrorNew ''not a real handler''), w)) None"

definition WithMaxCalls :: "'w handler \<Rightarrow> int \<Rightarrow> 'w handler" where
  "WithMaxCalls h maxCalls = (if maxCalls \<le> 0 then h else MaxCallsHandler h maxCalls 0)"

definition WithTimeout :: "time \<Rightarrow> 'w handler \<Rightarrow> duration \<Rightarrow> 'w handler" where
  "WithTimeout now h ttl = (if ttl \<le> 0 then h else TimeoutHandler h (now + ttl))"

definition WithDirection :: "'w handler \<Rightarrow> Direction \<Rightarrow> 'w handler" where
  "WithDirection h direction = DirectionHandler h direction NaN DirectionNone"

definition WithThreshold :: "'w handler \<Rightarrow> Direction \<Rightarrow> float64 \<Rightarrow> float64 \<Rightarrow> 'w handler" where
  "WithThreshold h direction triggerVal resetVal =
     ThresholdHandler h direction triggerVal resetVal False"

definition WithRange :: "'w handler \<Rightarrow> float64 \<Rightarrow> float64 \<Rightarrow> 'w handler" where
  "WithRange h minv maxv = RangeHandler h minv maxv"

definition WithDebounce :: "time \<Rightarrow> 'w handler \<Rightarrow> duration \<Rightarrow> 'w handler" where
  "WithDebounce now h ttl =
     (if ttl \<le> 0 then h else DebounceHandler h ttl (now + neg_duration ttl))"

text \<open>\<^verbatim>\<open>ID()\<close> and \<^verbatim>\<open>LastError()\<close> are promoted from the embedded handler.\<close>

fun ID :: "'w handler \<Rightarrow> int" where
  "ID (BasicEventHandler i f lastErr) = i"
| "ID (MaxCallsHandler h maxCalls calls) = ID h"
| "ID (TimeoutHandler h endTime) = ID h"
| "ID (DirectionHandler h targetDirection lastValue currentDirection) = ID h"
| "ID (ThresholdHandler h direction triggerVal resetVal triggered) = ID h"
| "ID (RangeHandler h minv maxv) = ID h"
| "ID (DebounceHandler h ttl lastv) = ID h"

fun LastError :: "'w handler \<Rightarrow> error option" where
  "LastError (BasicEventHandler i f lastErr) = lastErr"
| "LastError (MaxCallsHandler h maxCalls calls) = LastError h"
| "LastError (TimeoutHandler h endTime) = LastError h"
| "LastError (DirectionHandler h targetDirection lastValue currentDirection) = LastError h"
| "LastError (ThresholdHandler h direction triggerVal resetVal triggered) = LastError h"
| "LastError (RangeHandler h minv maxv) = LastError h"
| "LastError (DebounceHandler h ttl lastv) = LastError h"

text \<open>\<open>Expired h now\<close>: the method \<^verbatim>\<open>Expired()\<close> called when the clock reads \<open>now\<close>.\<close>

fun Expired :: "'w handler \<Rightarrow> time \<Rightarrow> bool" where
  "Expired (BasicEventHandler i f lastErr) now = False"
| "Expired (MaxCallsHandler h maxCalls calls) now =
     (if calls \<ge> maxCalls then True else Expired h now)"
| "Expired (TimeoutHandler h endTime) now =
     (if now > endTime then True else Expired h now)"
| "Expired (DirectionHandler h targetDirection lastValue currentDirection) now = Expired h now"
| "Expired (ThresholdHandler h direction triggerVal resetVal triggered) now = Expired h now"
| "Expired (RangeHandler h minv maxv) now = Expired h now"
| "Expired (DebounceHandler h ttl lastv) now = Expired h now"

text \<open>
  \<open>Call h ev w\<close> is the method \<^verbatim>\<open>Call\<close>: it returns the error (\<open>None\<close> is \<^verbatim>\<open>nil\<close>),
  the handler with its fields as the call leaves them, and the world as the terminal
  callback leaves it. The base handler first tests its own \<^verbatim>\<open>Expired()\<close>, which is
  constantly false (the clock is not read there).
\<close>

fun Call :: "'w handler \<Rightarrow> event \<Rightarrow> 'w \<Rightarrow> error option \<times> 'w handler \<times> 'w" where
  "Call (BasicEventHandler i f lastErr) ev w =
     (if Expired (BasicEventHandler i f lastErr) 0 then (None, BasicEventHandler i f lastErr, w)
      else case f ev w of (err, w') \<Rightarrow>
        (case err of
           Some e \<Rightarrow> if errors_Is e ErrIgnored then None else Some e
         | None \<Rightarrow> None,
         BasicEventHandler i f err, w'))"
| "Call (MaxCallsHandler h maxCalls calls) ev w =
     (if calls \<ge> maxCalls then (Some ErrExpired, MaxCallsHandler h maxCalls calls, w)
      else case Call h ev w of (err, h', w') \<Rightarrow>
        (case err of
           Some e \<Rightarrow>
             (if errors_Is e ErrIgnored then None else Some e, MaxCallsHandler h' maxCalls calls, w')
         | None \<Rightarrow> (None, MaxCallsHandler h' maxCalls (calls + 1), w')))"
| "Call (TimeoutHandler h endTime) ev w =
     (if GetTime ev > endTime then (Some ErrExpired, TimeoutHandler h endTime, w)
      else case Call h ev w of (err, h', w') \<Rightarrow> (err, TimeoutHandler h' endTime, w'))"
| "Call (DirectionHandler h targetDirection lastValue currentDirection) ev w =
     (case GetValue ev of
        None \<Rightarrow>
          (Some ErrIncompatibleEvent,
           DirectionHandler h targetDirection lastValue currentDirection, w)
      | Some val \<Rightarrow>
          if IsNaN val then
            (Some ErrIgnored, DirectionHandler h targetDirection lastValue currentDirection, w)
          else if IsNaN lastValue then
            (Some ErrIgnored, DirectionHandler h targetDirection val currentDirection, w)
          else if f64_lt val lastValue \<or> f64_gt val lastValue then
            (let dir = (if f64_lt val lastValue then DirectionDecreasing
                        else DirectionIncreasing)
             in if targetDirection = DirectionReverse then
                  (if dir \<noteq> currentDirection then
                     (case Call h ev w of (err, h', w') \<Rightarrow>
                        (err, DirectionHandler h' targetDirection lastValue currentDirection, w'))
                   else
                     (Some ErrIgnored,
                      DirectionHandler h targetDirection lastValue currentDirection, w))
                else if dir = targetDirection then
                  (case Call h ev w of (err, h', w') \<Rightarrow>
                     (err, DirectionHandler h' targetDirection lastValue dir, w'))
                else (Some ErrIgnored, DirectionHandler h targetDirection lastValue dir, w))
          else if targetDirection = DirectionSteady then
            (case Call h ev w of (err, h', w') \<Rightarrow>
               (err, DirectionHandler h' targetDirection lastValue currentDirection, w'))
          else
            (Some ErrIgnored, DirectionHandler h targetDirection lastValue currentDirection, w))"
| "Call (ThresholdHandler h direction triggerVal resetVal triggered) ev w =
     (case GetValue ev of
        None \<Rightarrow>
          (Some ErrIncompatibleEvent,
           ThresholdHandler h direction triggerVal resetVal triggered, w)
      | Some val \<Rightarrow>
          if IsNaN val then
            (Some ErrIgnored, ThresholdHandler h direction triggerVal resetVal triggered, w)
          else if triggered then
            (Some ErrIgnored,
             ThresholdHandler h direction triggerVal resetVal
               (if direction = DirectionDecreasing then
                  (if f64_ge val resetVal then False else triggered)
                else if direction = DirectionIncreasing then
                  (if f64_le val resetVal then False else triggered)
                else triggered),
             w)
          else if direction = DirectionDecreasing \<and> f64_le val triggerVal then
            (case Call h ev w of (err, h', w') \<Rightarrow>
               (err, ThresholdHandler h' direction triggerVal resetVal True, w'))
          else if direction = DirectionIncreasing \<and> f64_ge val triggerVal then
            (case Call h ev w of (err, h', w') \<Rightarrow>
               (err, ThresholdHandler h' direction triggerVal resetVal True, w'))
          else (Some ErrIgnored, ThresholdHandler h direction triggerVal resetVal triggered, w))"
| "Call (RangeHandler h minv maxv) ev w =
     (case GetValue ev of
        None \<Rightarrow> (Some ErrIncompatibleEvent, RangeHandler h minv maxv, w)
      | Some val \<Rightarrow>
          if IsNaN val then (Some ErrIgnored, RangeHandler h minv maxv, w)
          else if f64_gt minv maxv then
            (if f64_lt val minv \<or> f64_gt val maxv then
               (case Call h ev w of (err, h', w') \<Rightarrow> (err, RangeHandler h' minv maxv, w'))
             else (Some ErrIgnored, RangeHandler h minv maxv, w))
          else if f64_lt val minv \<or> f64_gt val maxv then
            (Some ErrIgnored, RangeHandler h minv maxv, w)
          else (case Call h ev w of (err, h', w') \<Rightarrow> (err, RangeHandler h' minv maxv, w')))"
| "Call (DebounceHandler h ttl lastv) ev w =
     (let t = GetTime ev
      in if lastv + ttl > t then (Some ErrIgnored, DebounceHandler h ttl lastv, w)
         else case Call h ev w of (err, h', w') \<Rightarrow> (err, DebounceHandler h' ttl t, w'))"

text \<open>
  Feeding a handler a sequence of events, one \<^verbatim>\<open>Call\<close> after the other: the errors
  returned in order, the handler and the world at the end.
\<close>

fun feed :: "'w handler \<Rightarrow> event list \<Rightarrow> 'w \<Rightarrow> error option list \<times> 'w handler \<times> 'w" where
  "feed h [] w = ([], h, w)"
| "feed h (ev # evs) w =
     (case Call h ev w of (err, h', w') \<Rightarrow>
        (case feed h' evs w' of (errs, h'', w'') \<Rightarrow> (err # errs, h'', w'')))"

section \<open>The coercion table of the specification\<close>

text \<open>
  The shapes of payload the specification's coercion table distinguishes, stated
  independently of \<open>NewEvent\<close>. \<open>numeric d\<close> is the floating-point widening of a numeric
  primitive (any width and signedness, both float widths) and \<open>None\<close> for every other
  payload; \<open>valuer d\<close> is the value of an object with the value capability;
  \<open>stringable d\<close> is the text of a string or of an object with the string capability.
\<close>

fun numeric :: "payload \<Rightarrow> float64 option" where
  "numeric (PFloat64 x) = Some x"
| "numeric (PFloat32 x) = Some x"
| "numeric (PInt i) = Some (float64_of_int (sint i))"
| "numeric (PInt64 i) = Some (float64_of_int (sint i))"
| "numeric (PInt32 i) = Some (float64_of_int (sint i))"
| "numeric (PInt16 i) = Some (float64_of_int (sint i))"
| "numeric (PInt8 i) = Some (float64_of_int (sint i))"
| "numeric (PUint i) = Some (float64_of_int (uint i))"
| "numeric (PUint64 i) = Some (float64_of_int (uint i))"
| "numeric (PUint32 i) = Some (float64_of_int (uint i))"
| "numeric (PUint16 i) = Some (float64_of_int (uint i))"
| "numeric (PUint8 i) = Some (float64_of_int (uint i))"
| "numeric d = None"

fun valuer :: "payload \<Rightarrow> float64 option" where
  "valuer (PObject v s) = v"
| "valuer d = None"

fun stringable :: "payload \<Rightarrow> string option" where
  "stringable (PString s) = Some s"
| "stringable (PObject v s) = s"
| "stringable d = None"

text \<open>An entry of a map payload that is missing, or present with a shape for which \<open>f\<close> is undefined.\<close>

definition lacks :: "(payload \<Rightarrow> 'a option) \<Rightarrow> payload option \<Rightarrow> bool" where
  "lacks f entry = (case entry of None \<Rightarrow> True | Some d \<Rightarrow> f d = None)"

section \<open>Event sink\<close>

text \<open>
  The registry of a sink holds pointers to handler objects, and a call through such a
  pointer changes the object for every holder. A \<open>ref\<close> is the address of a handler
  object; the \<open>store\<close> of a machine gives the object at each address. A machine is the
  sink together with the store and the world outside; the mutex of the sink is not a
  field of the model, each function below being one uninterrupted run.
  \<^verbatim>\<open>generic.LinkedList\<close> is a library outside the repository: the log is the list of
  its elements, \<^verbatim>\<open>Unshift\<close> is \<open>#\<close>, and \<^verbatim>\<open>PopIf\<close> is an argument \<open>popIf\<close> of the
  functions that call it.
  Every call of \<^verbatim>\<open>time.Now()\<close> has a reading of its own: a function that reads the
  clock once takes the reading as an argument, \<open>Emit\<close> takes its two readings, and the
  loop of \<open>RemoveEventListener\<close>, which reads the clock once for each handler it drops,
  takes the sequence \<open>clk\<close> of the readings it will get (\<open>clk 0\<close> first).
\<close>

type_synonym ref = nat

record basicEventSink =
  listeners :: "string \<Rightarrow> ref list option"
  eventTypes :: "string \<Rightarrow> event option"
  eventlog :: "event list"
  logTTL :: duration

record 'w machine =
  sink :: basicEventSink
  store :: "ref \<Rightarrow> 'w handler"
  world :: 'w

text \<open>
  A goroutine started with \<^verbatim>\<open>go\<close> runs later and on its own: the function that starts
  it returns it as a task. \<open>GoEmit\<close> is a pending \<^verbatim>\<open>es.Emit\<close>, \<open>GoFire\<close> a pending
  \<^verbatim>\<open>es.Fire\<close>, and \<open>GoCall\<close> the per-listener goroutine of \<^verbatim>\<open>Fire\<close>.
\<close>

datatype task =
    GoEmit string payload
  | GoFire event
  | GoCall ref event

definition NewEventSink :: "duration \<Rightarrow> basicEventSink" where
  "NewEventSink ttl =
     \<lparr>listeners = (\<lambda>t. None), eventTypes = (\<lambda>t. None), eventlog = [], logTTL = ttl\<rparr>"

text \<open>Reading a Go map at a missing key gives the zero value, the nil slice.\<close>

definition listeners_at :: "basicEventSink \<Rightarrow> string \<Rightarrow> ref list" where
  "listeners_at es eventType = (case listeners es eventType of None \<Rightarrow> [] | Some hs \<Rightarrow> hs)"

definition AddEventListener :: "string \<Rightarrow> ref \<Rightarrow> 'w machine \<Rightarrow> 'w machine \<times> task list" where
  "AddEventListener eventType handler m =
     (m\<lparr>sink := (sink m)\<lparr>listeners :=
            (listeners (sink m))(eventType \<mapsto> listeners_at (sink m) eventType @ [handler])\<rparr>\<rparr>,
      [GoEmit EventTypeHandlerAdded
         (PListenerMeta \<lparr>EventType = eventType, HandlerID = ID (store m handler), Error = []\<rparr>)])"

text \<open>
  The loop of \<open>RemoveEventListener\<close> over the listeners of the type: the handlers kept,
  and one \<^verbatim>\<open>listener-remove\<close> event for each handler dropped, made at the next reading
  of the clock.
\<close>

fun remove_loop ::
  "(ref \<Rightarrow> 'w handler) \<Rightarrow> (nat \<Rightarrow> time) \<Rightarrow> string \<Rightarrow> int \<Rightarrow> ref list
   \<Rightarrow> ref list \<times> event list" where
  "remove_loop st clk eventType i [] = ([], [])"
| "remove_loop st clk eventType i (eh # rest) =
     (if ID (st eh) \<noteq> i then
        (case remove_loop st clk eventType i rest of (out, evts) \<Rightarrow> (eh # out, evts))
      else
        (case remove_loop st (\<lambda>n. clk (Suc n)) eventType i rest of (out, evts) \<Rightarrow>
           (out,
            NewEvent (clk 0) EventTypeHandlerRemoved
              (PListenerMeta \<lparr>EventType = eventType, HandlerID = i, Error = []\<rparr>) # evts)))"

definition RemoveEventListener ::
  "(nat \<Rightarrow> time) \<Rightarrow> string \<Rightarrow> 'w handler \<Rightarrow> 'w machine \<Rightarrow> 'w machine \<times> task list" where
  "RemoveEventListener clk eventType handler m =
     (case remove_loop (store m) clk eventType (ID handler) (listeners_at (sink m) eventType) of
        (out, evts) \<Rightarrow>
          (m\<lparr>sink := (sink m)\<lparr>listeners :=
                 (if length out = 0 then (listeners (sink m))(eventType := None)
                  else (listeners (sink m))(eventType \<mapsto> out))\<rparr>\<rparr>,
           map GoFire evts))"

text \<open>
  \<open>Fire\<close> returns one \<open>GoCall\<close> task for each listener of the snapshot. It reads the
  clock once, at \<open>now\<close>; \<open>oldest\<close> is \<^verbatim>\<open>time.Now().Add(-es.logTTL)\<close>.
\<close>

definition Fire ::
  "((event \<Rightarrow> bool) \<Rightarrow> event list \<Rightarrow> event list) \<Rightarrow> time \<Rightarrow> event \<Rightarrow> 'w machine
   \<Rightarrow> 'w machine \<times> task list" where
  "Fire popIf now ev m =
     (let eventType = GetType ev;
          oldest = now + neg_duration (logTTL (sink m));
          log' = popIf (\<lambda>e. GetTime e < oldest) (ev # eventlog (sink m));
          snapshot = listeners_at (sink m) eventType;
          types' = (case eventTypes (sink m) eventType of
                      None \<Rightarrow> (eventTypes (sink m))(eventType \<mapsto> ev)
                    | Some known \<Rightarrow> eventTypes (sink m))
      in (m\<lparr>sink := (sink m)\<lparr>eventTypes := types', eventlog := log'\<rparr>\<rparr>,
          map (\<lambda>h. GoCall h ev) snapshot))"

text \<open>
  \<open>Emit\<close> reads the clock twice: \<open>NewEvent\<close> reads \<open>made\<close>, and then \<open>Fire\<close> reads
  \<open>now\<close>.
\<close>

definition Emit ::
  "((event \<Rightarrow> bool) \<Rightarrow> event list \<Rightarrow> event list) \<Rightarrow> time \<Rightarrow> time \<Rightarrow> string \<Rightarrow> payload
   \<Rightarrow> 'w machine \<Rightarrow> 'w machine \<times> task list" where
  "Emit popIf made now eventType data m = Fire popIf now (NewEvent made eventType data) m"

definition RegisterEventType :: "event \<Rightarrow> 'w machine \<Rightarrow> 'w machine" where
  "RegisterEventType ev m =
     m\<lparr>sink := (sink m)\<lparr>eventTypes := (eventTypes (sink m))(GetType ev \<mapsto> ev)\<rparr>\<rparr>"

text \<open>
  The last statement of the per-listener goroutine: a listener that reports itself
  expired, at the reading \<open>asked\<close> of the clock, is removed. \<open>ts\<close> are the tasks
  started before it.
\<close>

definition remove_if_expired ::
  "time \<Rightarrow> (nat \<Rightarrow> time) \<Rightarrow> string \<Rightarrow> ref \<Rightarrow> 'w machine \<times> task list
   \<Rightarrow> 'w machine \<times> task list" where
  "remove_if_expired asked clk eventType xh mts =
     (case mts of (m, ts) \<Rightarrow>
        if Expired (store m xh) asked then
          (case RemoveEventListener clk eventType (store m xh) m of (m', ts') \<Rightarrow> (m', ts @ ts'))
        else (m, ts))"

text \<open>
  The goroutine \<open>Fire\<close> starts for the listener \<open>xh\<close> of its snapshot, with the event
  \<open>ev\<close>; the event type it uses is the one \<open>Fire\<close> read from \<open>ev\<close>. The call acts on
  the handler object in the store and on the world. Its readings of the clock: \<open>made\<close>
  and \<open>now\<close> are those of \<open>Emit\<close>, \<open>asked\<close> is that of \<^verbatim>\<open>xh.Expired()\<close> (one reading
  for the whole chain of wrappers, as \<open>Expired\<close> has it), and \<open>clk\<close> are those of the
  \<open>RemoveEventListener\<close> it calls.
\<close>

definition listener_goroutine ::
  "((event \<Rightarrow> bool) \<Rightarrow> event list \<Rightarrow> event list) \<Rightarrow> time \<Rightarrow> time \<Rightarrow> time \<Rightarrow> (nat \<Rightarrow> time)
   \<Rightarrow> ref \<Rightarrow> event \<Rightarrow> 'w machine \<Rightarrow> 'w machine \<times> task list" where
  "listener_goroutine popIf made now asked clk xh ev m =
     (let eventType = GetType ev
      in case Call (store m xh) ev (world m) of (err, h', w') \<Rightarrow>
           (let m1 = m\<lparr>store := (store m)(xh := h'), world := w'\<rparr>
            in case err of
                 Some e \<Rightarrow>
                   if errors_Is e ErrExpired then
                     RemoveEventListener clk eventType (store m1 xh) m1
                   else
                     remove_if_expired asked clk eventType xh
                       (if \<not> errors_Is e ErrIgnored then
                          Emit popIf made now EventTypeHandlerError
                            (PListenerMeta \<lparr>EventType = eventType, HandlerID = ID (store m1 xh),
                                             Error = error_string e\<rparr>) m1
                        else (m1, []))
               | None \<Rightarrow> remove_if_expired asked clk eventType xh (m1, [])))"

section \<open>Namespaced sink view\<close>

text \<open>
  A \<^verbatim>\<open>PrefixedEventSource\<close> embeds an \<^verbatim>\<open>EventSink\<close> interface value: the methods of
  some sink, acting on that sink's state \<open>'s\<close> (handlers are of type \<open>'h\<close>). The methods
  of the embedded sink are taken to return. A method of the view returns \<open>Some\<close> of the
  state it leaves the underlying sink in, and \<open>None\<close> when it does not return.
\<close>

record ('s, 'h) EventSink =
  sink_AddEventListener :: "string \<Rightarrow> 'h \<Rightarrow> 's \<Rightarrow> 's"
  sink_RemoveEventListener :: "string \<Rightarrow> 'h \<Rightarrow> 's \<Rightarrow> 's"
  sink_Once :: "string \<Rightarrow> 'h \<Rightarrow> 's \<Rightarrow> 's"
  sink_Fire :: "event \<Rightarrow> 's \<Rightarrow> 's"
  sink_Emit :: "string \<Rightarrow> payload \<Rightarrow> 's \<Rightarrow> 's"
  sink_Log :: "'s \<Rightarrow> event list"
  sink_RegisterEventType :: "event \<Rightarrow> 's \<Rightarrow> 's"
  sink_ListEventTypes :: "'s \<Rightarrow> event list"

record ('s, 'h) PrefixedEventSource =
  EventSink :: "('s, 'h) EventSink"
  prefix :: string

definition NewPrefixedEventSource ::
  "string \<Rightarrow> ('s, 'h) EventSink \<Rightarrow> ('s, 'h) PrefixedEventSource" where
  "NewPrefixedEventSource p snk = \<lparr>EventSink = snk, prefix = p @ ''-''\<rparr>"

definition Prefixed_AddEventListener ::
  "('s, 'h) PrefixedEventSource \<Rightarrow> string \<Rightarrow> 'h \<Rightarrow> 's \<Rightarrow> 's option" where
  "Prefixed_AddEventListener es eventType handler s =
     Some (sink_AddEventListener (EventSink es) (prefix es @ eventType) handler s)"

text \<open>
  \<^verbatim>\<open>RemoveEventListener\<close> and \<^verbatim>\<open>Once\<close> call \<^verbatim>\<open>es.RemoveEventListener\<close> and
  \<^verbatim>\<open>es.Once\<close>: the receiver's own methods, which hide those of the embedded sink.
\<close>

partial_function (option) Prefixed_RemoveEventListener ::
  "('s, 'h) PrefixedEventSource \<Rightarrow> string \<Rightarrow> 'h \<Rightarrow> 's \<Rightarrow> 's option" where
  "Prefixed_RemoveEventListener es eventType handler s =
     Prefixed_RemoveEventListener es (prefix es @ eventType) handler s"

partial_function (option) Prefixed_Once ::
  "('s, 'h) PrefixedEventSource \<Rightarrow> string \<Rightarrow> 'h \<Rightarrow> 's \<Rightarrow> 's option" where
  "Prefixed_Once es eventType handler s = Prefixed_Once es (prefix es @ eventType) handler s"

definition Prefixed_As :: "('s, 'h) PrefixedEventSource \<Rightarrow> event \<Rightarrow> event" where
  "Prefixed_As es ev = As ev (prefix es @ GetType ev)"

definition Prefixed_Fire :: "('s, 'h) PrefixedEventSource \<Rightarrow> event \<Rightarrow> 's \<Rightarrow> 's option" where
  "Prefixed_Fire es ev s = Some (sink_Fire (EventSink es) (Prefixed_As es ev) s)"

definition Prefixed_Emit ::
  "('s, 'h) PrefixedEventSource \<Rightarrow> string \<Rightarrow> payload \<Rightarrow> 's \<Rightarrow> 's option" where
  "Prefixed_Emit es eventType data s =
     Some (sink_Emit (EventSink es) (prefix es @ eventType) data s)"

definition Prefixed_RegisterEventType ::
  "('s, 'h) PrefixedEventSource \<Rightarrow> event \<Rightarrow> 's \<Rightarrow> 's option" where
  "Prefixed_RegisterEventType es ev s =
     Some (sink_RegisterEventType (EventSink es) (Prefixed_As es ev) s)"

section \<open>Test fixtures and specification-side notions\<close>

text \<open>
  Two terminal callbacks over a world that is the list of the events delivered so far:
  \<open>recorder\<close> succeeds, \<open>failing\<close> returns an error of its own. Both append the event
  they receive.
\<close>

definition recorder :: "event \<Rightarrow> event list \<Rightarrow> error option \<times> event list" where
  "recorder ev w = (None, w @ [ev])"

definition failing :: "event \<Rightarrow> event list \<Rightarrow> error option \<times> event list" where
  "failing ev w = (Some (ErrorNew ''boom''), w @ [ev])"

text \<open>A value event of type \<^verbatim>\<open>temp\<close> made at time \<open>0\<close>.\<close>

definition reading :: "real \<Rightarrow> event" where
  "reading x = ValueEvent (BasicEvent \<lparr>Type = ''temp'', Time = 0, Data = PNil\<rparr>) (Finite x)"

text \<open>
  What a caller of a max-calls wrapper sees when the wrapped handler returned \<open>err\<close>,
  and the number of calls in a sequence that returned no error.
\<close>

definition seen_through :: "error option \<Rightarrow> error option" where
  "seen_through err =
     (case err of None \<Rightarrow> None | Some e \<Rightarrow> if errors_Is e ErrIgnored then None else Some e)"

definition successes :: "error option list \<Rightarrow> int" where
  "successes errs = int (length (filter (\<lambda>err. err = None) errs))"

text \<open>The filters that read the numeric value of the event they are called with.\<close>

fun inspects_value :: "'w handler \<Rightarrow> bool" where
  "inspects_value (DirectionHandler h targetDirection lastValue currentDirection) = True"
| "inspects_value (ThresholdHandler h direction triggerVal resetVal triggered) = True"
| "inspects_value (RangeHandler h minv maxv) = True"
| "inspects_value h = False"

text \<open>
  The meta-events of the sink, as the specification describes them: a
  \<^verbatim>\<open>listener-error\<close> event carries the event type, the handler id and the text of the
  error; a \<^verbatim>\<open>listener-remove\<close> event carries the event type and the handler id.
\<close>

definition listener_error_event :: "time \<Rightarrow> string \<Rightarrow> int \<Rightarrow> error \<Rightarrow> event" where
  "listener_error_event now eventType hid e =
     BasicEvent \<lparr>Type = ''listener-error'', Time = now,
                 Data = PListenerMeta \<lparr>EventType = eventType, HandlerID = hid,
                                        Error = error_string e\<rparr>\<rparr>"

definition listener_removed_event :: "time \<Rightarrow> string \<Rightarrow> int \<Rightarrow> event" where
  "listener_removed_event now eventType hid =
     BasicEvent \<lparr>Type = ''listener-remove'', Time = now,
                 Data = PListenerMeta \<lparr>EventType = eventType, HandlerID = hid, Error = []\<rparr>\<rparr>"

text \<open>
  What removing the handlers of id \<open>hid\<close> from the registry \<open>reg\<close> at the type
  \<open>eventType\<close> means: the other handlers of the type stay, in their order; the entry of
  the type is dropped when none stays; every other type keeps its entry. \<open>st\<close> tells the
  id of the handler at an address. \<open>removal_tasks\<close> are the tasks that fire one
  \<^verbatim>\<open>listener-remove\<close> event for each handler removed, made at successive readings of
  the clock.
\<close>

definition without_handler ::
  "(string \<Rightarrow> ref list option) \<Rightarrow> (ref \<Rightarrow> 'w handler) \<Rightarrow> string \<Rightarrow> int
   \<Rightarrow> (string \<Rightarrow> ref list option)" where
  "without_handler reg st eventType hid =
     (let kept = filter (\<lambda>r. ID (st r) \<noteq> hid) (case reg eventType of None \<Rightarrow> [] | Some hs \<Rightarrow> hs)
      in reg(eventType := (if kept = [] then None else Some kept)))"

definition removal_tasks ::
  "(nat \<Rightarrow> time) \<Rightarrow> (string \<Rightarrow> ref list option) \<Rightarrow> (ref \<Rightarrow> 'w handler) \<Rightarrow> string \<Rightarrow> int
   \<Rightarrow> task list" where
  "removal_tasks clk reg st eventType hid =
     map (\<lambda>k. GoFire (listener_removed_event (clk k) eventType hid))
       [0 ..< length (filter (\<lambda>r. ID (st r) = hid)
                        (case reg eventType of None \<Rightarrow> [] | Some hs \<Rightarrow> hs))]"

text \<open>A stand-in for \<^verbatim>\<open>PopIf\<close> in examples: it drops every element the predicate holds of.\<close>

definition drop_all :: "(event \<Rightarrow> bool) \<Rightarrow> event list \<Rightarrow> event list" where
  "drop_all old evs = filter (\<lambda>e. \<not> old e) evs"

text \<open>
  A machine for examples: a sink with a log retention of \<open>60\<close>; the handler \<open>h\<close> at the
  address \<open>0\<close> and a plain handler of id \<open>2\<close> at every other address; the addresses
  \<open>0\<close> and \<open>1\<close> registered for the type \<^verbatim>\<open>temp\<close>; nothing delivered yet.
\<close>

definition machine_with :: "event list handler \<Rightarrow> event list machine" where
  "machine_with h =
     \<lparr>sink = \<lparr>listeners = [''temp'' \<mapsto> [0, 1]], eventTypes = (\<lambda>t. None), eventlog = [],
              logTTL = 60\<rparr>,
      store = (\<lambda>r. if r = 0 then h else BasicEventHandler 2 recorder None), world = []\<rparr>"

section \<open>Properties of the event model\<close>

text \<open>
  The conversion of an integer rounds where a \<^verbatim>\<open>float64\<close> cannot hold it: \<open>2^53 + 1\<close>
  becomes \<open>2^53\<close>, and the largest \<^verbatim>\<open>uint64\<close> becomes \<open>2^64\<close>.
\<close>

lemma float64_of_int_rounds:
  "float64_of_int (sint (9007199254740993 :: 64 word)) = Finite 9007199254740992
   \<and> float64_of_int (uint (- 1 :: 64 word)) = Finite 18446744073709551616"
  by code_simp

lemma value_switch_numeric:
  "numeric d = Some v \<Longrightarrow> value_switch base d = Some (ValueEvent base v)"
  by (cases d) simp_all

lemma value_switch_valuer:
  "valuer d = Some v \<Longrightarrow> value_switch base d = Some (ValueEvent base v)"
  by (cases d) simp_all

lemma value_switch_stringable:
  "numeric d = None \<Longrightarrow> valuer d = None \<Longrightarrow> stringable d = Some s \<Longrightarrow>
   value_switch base d = Some (MessageEvent base s)"
  by (cases d) simp_all

lemma value_switch_unrecognized:
  "numeric d = None \<Longrightarrow> valuer d = None \<Longrightarrow> stringable d = None \<Longrightarrow>
   value_switch base d = None"
  by (cases d) simp_all

lemma message_switch_stringable:
  "stringable d = Some s \<Longrightarrow> message_switch base d = Some (MessageEvent base s)"
  by (cases d) simp_all

lemma message_switch_unrecognized:
  "stringable d = None \<Longrightarrow> message_switch base d = None"
  by (cases d) simp_all

lemma NewEvent_numeric:
  "numeric d = Some v \<Longrightarrow>
   NewEvent now t d = ValueEvent (BasicEvent \<lparr>Type = t, Time = now, Data = PNil\<rparr>) v"
  by (cases d) simp_all

lemma NewEvent_map_value:
  "m ''value'' = Some d \<Longrightarrow> value_switch (BasicEvent \<lparr>Type = t, Time = now, Data = PMap m\<rparr>) d = Some ev \<Longrightarrow>
   NewEvent now t (PMap m) = ev"
  by simp

lemma NewEvent_map_message:
  "(case m ''value'' of None \<Rightarrow> None
    | Some d \<Rightarrow> value_switch (BasicEvent \<lparr>Type = t, Time = now, Data = PMap m\<rparr>) d) = None \<Longrightarrow>
   m ''message'' = Some d' \<Longrightarrow>
   message_switch (BasicEvent \<lparr>Type = t, Time = now, Data = PMap m\<rparr>) d' = Some ev \<Longrightarrow>
   NewEvent now t (PMap m) = ev"
  by simp

text \<open>
  C8. For every event \<open>e\<close> of every specialization and every type string \<open>t\<close>,
  \<open>As e t\<close> is an event whose type is \<open>t\<close>, whose time, data, value and message are
  those of \<open>e\<close>, and whose concrete specialization is that of \<open>e\<close>. (\<open>As\<close> builds a new
  event and assigns to no field of its receiver.)
\<close>

theorem As_changes_only_the_type:
  "GetType (As e t) = t
   \<and> GetTime (As e t) = GetTime e
   \<and> GetData (As e t) = GetData e
   \<and> GetValue (As e t) = GetValue e
   \<and> GetMessage (As e t) = GetMessage e
   \<and> kind_of (As e t) = kind_of e"
  by (induction e) simp_all

theorem As_changes_only_the_type_witness:
  "GetType (As (ValueEvent (BasicEvent \<lparr>Type = ''temp'', Time = 5, Data = PNil\<rparr>) (Finite 3)) ''ns-temp'')
     = ''ns-temp''
   \<and> GetValue (As (ValueEvent (BasicEvent \<lparr>Type = ''temp'', Time = 5, Data = PNil\<rparr>) (Finite 3)) ''ns-temp'')
     = Some (Finite 3)
   \<and> kind_of (As (MessageEvent (BasicEvent \<lparr>Type = ''note'', Time = 5, Data = PNil\<rparr>) ''hi'') ''ns-note'')
     = Message"
  using As_changes_only_the_type
          [of "ValueEvent (BasicEvent \<lparr>Type = ''temp'', Time = 5, Data = PNil\<rparr>) (Finite 3)" "''ns-temp''"]
        As_changes_only_the_type
          [of "MessageEvent (BasicEvent \<lparr>Type = ''note'', Time = 5, Data = PNil\<rparr>) ''hi''" "''ns-note''"]
  by simp

text \<open>
  C5. Event construction follows the coercion table: a numeric primitive payload of any
  width or signedness yields a value event carrying its widening; a string payload yields
  a message event; a mapping whose \<open>value\<close> entry is numeric yields a value event whatever
  its \<open>message\<close> entry is; a mapping with a string or stringable \<open>message\<close> entry, and no
  numeric or value-capable \<open>value\<close> entry to be preferred, yields a message event; a
  mapping in which neither entry is recognized yields a plain event carrying the whole
  mapping as its data.
\<close>

theorem NewEvent_coercion_table:
  "(numeric d = Some v \<longrightarrow>
      NewEvent now t d = ValueEvent (BasicEvent \<lparr>Type = t, Time = now, Data = PNil\<rparr>) v)
   \<and> NewEvent now t (PString s) =
        MessageEvent (BasicEvent \<lparr>Type = t, Time = now, Data = PNil\<rparr>) s
   \<and> (m ''value'' = Some d \<and> numeric d = Some v \<longrightarrow>
        NewEvent now t (PMap m) =
          ValueEvent (BasicEvent \<lparr>Type = t, Time = now, Data = PMap m\<rparr>) v)
   \<and> (m ''message'' = Some d' \<and> stringable d' = Some s'
        \<and> lacks numeric (m ''value'') \<and> lacks valuer (m ''value'') \<longrightarrow>
        kind_of (NewEvent now t (PMap m)) = Message
        \<and> GetData (NewEvent now t (PMap m)) = PMap m)
   \<and> (m ''message'' = Some d' \<and> stringable d' = Some s' \<and> m ''value'' = None \<longrightarrow>
        NewEvent now t (PMap m) =
          MessageEvent (BasicEvent \<lparr>Type = t, Time = now, Data = PMap m\<rparr>) s')
   \<and> (lacks numeric (m ''value'') \<and> lacks valuer (m ''value'')
        \<and> lacks stringable (m ''value'') \<and> lacks stringable (m ''message'') \<longrightarrow>
        NewEvent now t (PMap m) = BasicEvent \<lparr>Type = t, Time = now, Data = PMap m\<rparr>)"
proof (intro conjI impI)
  assume "numeric d = Some v"
  then show "NewEvent now t d = ValueEvent (BasicEvent \<lparr>Type = t, Time = now, Data = PNil\<rparr>) v"
    by (rule NewEvent_numeric)
next
  show "NewEvent now t (PString s) =
        MessageEvent (BasicEvent \<lparr>Type = t, Time = now, Data = PNil\<rparr>) s"
    by simp
next
  assume "m ''value'' = Some d \<and> numeric d = Some v"
  then show "NewEvent now t (PMap m) =
          ValueEvent (BasicEvent \<lparr>Type = t, Time = now, Data = PMap m\<rparr>) v"
    by (simp add: value_switch_numeric)
next
  let ?base = "BasicEvent \<lparr>Type = t, Time = now, Data = PMap m\<rparr>"
  assume a: "m ''message'' = Some d' \<and> stringable d' = Some s'
        \<and> lacks numeric (m ''value'') \<and> lacks valuer (m ''value'')"
  then have msg: "message_switch ?base d' = Some (MessageEvent ?base s')"
    by (simp add: message_switch_stringable)
  show "kind_of (NewEvent now t (PMap m)) = Message"
  proof (cases "m ''value''")
    case None
    with a msg show ?thesis by simp
  next
    case (Some d)
    with a have nv: "numeric d = None" "valuer d = None" by (simp_all add: lacks_def)
    show ?thesis
    proof (cases "stringable d")
      case None
      with nv have "value_switch ?base d = None" by (simp add: value_switch_unrecognized)
      with Some a msg show ?thesis by simp
    next
      case (Some x)
      with nv have "value_switch ?base d = Some (MessageEvent ?base x)"
        by (simp add: value_switch_stringable)
      with \<open>m ''value'' = Some d\<close> show ?thesis by simp
    qed
  qed
  show "GetData (NewEvent now t (PMap m)) = PMap m"
  proof (cases "m ''value''")
    case None
    with a msg show ?thesis by simp
  next
    case (Some d)
    with a have nv: "numeric d = None" "valuer d = None" by (simp_all add: lacks_def)
    show ?thesis
    proof (cases "stringable d")
      case None
      with nv have "value_switch ?base d = None" by (simp add: value_switch_unrecognized)
      with Some a msg show ?thesis by simp
    next
      case (Some x)
      with nv have "value_switch ?base d = Some (MessageEvent ?base x)"
        by (simp add: value_switch_stringable)
      with \<open>m ''value'' = Some d\<close> show ?thesis by simp
    qed
  qed
next
  assume "m ''message'' = Some d' \<and> stringable d' = Some s' \<and> m ''value'' = None"
  then show "NewEvent now t (PMap m) =
          MessageEvent (BasicEvent \<lparr>Type = t, Time = now, Data = PMap m\<rparr>) s'"
    by (simp add: message_switch_stringable)
next
  let ?base = "BasicEvent \<lparr>Type = t, Time = now, Data = PMap m\<rparr>"
  assume a: "lacks numeric (m ''value'') \<and> lacks valuer (m ''value'')
        \<and> lacks stringable (m ''value'') \<and> lacks stringable (m ''message'')"
  have v: "(case m ''value'' of None \<Rightarrow> None | Some d \<Rightarrow> value_switch ?base d) = None"
    using a by (auto simp: lacks_def value_switch_unrecognized split: option.splits)
  have ms: "(case m ''message'' of None \<Rightarrow> None | Some d \<Rightarrow> message_switch ?base d) = None"
    using a by (auto simp: lacks_def message_switch_unrecognized split: option.splits)
  show "NewEvent now t (PMap m) = ?base"
    using v ms by simp
qed

theorem NewEvent_coercion_table_witness:
  "NewEvent 7 ''temp'' (PInt8 (- 3)) =
     ValueEvent (BasicEvent \<lparr>Type = ''temp'', Time = 7, Data = PNil\<rparr>) (Finite (- 3))
   \<and> NewEvent 7 ''temp'' (PMap [''value'' \<mapsto> PUint16 4, ''message'' \<mapsto> PString ''hi'']) =
     ValueEvent (BasicEvent \<lparr>Type = ''temp'', Time = 7,
                  Data = PMap [''value'' \<mapsto> PUint16 4, ''message'' \<mapsto> PString ''hi'']\<rparr>) (Finite 4)
   \<and> kind_of (NewEvent 7 ''temp'' (PMap [''value'' \<mapsto> PNil, ''message'' \<mapsto> PString ''hi''])) = Message
   \<and> NewEvent 7 ''temp'' (PMap [''message'' \<mapsto> PString ''hi'']) =
     MessageEvent (BasicEvent \<lparr>Type = ''temp'', Time = 7,
                    Data = PMap [''message'' \<mapsto> PString ''hi'']\<rparr>) ''hi''
   \<and> NewEvent 7 ''temp'' (PMap [''other'' \<mapsto> PString ''hi'']) =
     BasicEvent \<lparr>Type = ''temp'', Time = 7, Data = PMap [''other'' \<mapsto> PString ''hi'']\<rparr>"
proof -
  have n: "numeric (PInt8 (- 3)) = Some (Finite (- 3))"
    by (simp add: float64_of_int_def)
  have u: "numeric (PUint16 4) = Some (Finite 4)"
    by (simp add: float64_of_int_def)
  note a = NewEvent_coercion_table
             [where d = "PInt8 (- 3)" and v = "Finite (- 3)" and now = 7 and t = "''temp''"]
  note b = NewEvent_coercion_table
             [where d = "PUint16 4" and v = "Finite 4" and now = 7 and t = "''temp''"
                and m = "[''value'' \<mapsto> PUint16 4, ''message'' \<mapsto> PString ''hi'']"]
  note c = NewEvent_coercion_table
             [where now = 7 and t = "''temp''" and d' = "PString ''hi''" and s' = "''hi''"
                and m = "[''value'' \<mapsto> PNil, ''message'' \<mapsto> PString ''hi'']"]
  note d = NewEvent_coercion_table
             [where now = 7 and t = "''temp''" and d' = "PString ''hi''" and s' = "''hi''"
                and m = "[''message'' \<mapsto> PString ''hi'']"]
  note e = NewEvent_coercion_table
             [where now = 7 and t = "''temp''" and m = "[''other'' \<mapsto> PString ''hi'']"]
  have 1: "NewEvent 7 ''temp'' (PInt8 (- 3)) =
     ValueEvent (BasicEvent \<lparr>Type = ''temp'', Time = 7, Data = PNil\<rparr>) (Finite (- 3))"
    using a n by blast
  have 2: "NewEvent 7 ''temp'' (PMap [''value'' \<mapsto> PUint16 4, ''message'' \<mapsto> PString ''hi'']) =
     ValueEvent (BasicEvent \<lparr>Type = ''temp'', Time = 7,
                  Data = PMap [''value'' \<mapsto> PUint16 4, ''message'' \<mapsto> PString ''hi'']\<rparr>) (Finite 4)"
    using b u by simp
  have 3: "kind_of (NewEvent 7 ''temp'' (PMap [''value'' \<mapsto> PNil, ''message'' \<mapsto> PString ''hi''])) = Message"
    using c by (simp add: lacks_def)
  have 4: "NewEvent 7 ''temp'' (PMap [''message'' \<mapsto> PString ''hi'']) =
     MessageEvent (BasicEvent \<lparr>Type = ''temp'', Time = 7,
                    Data = PMap [''message'' \<mapsto> PString ''hi'']\<rparr>) ''hi''"
    using d by simp
  have 5: "NewEvent 7 ''temp'' (PMap [''other'' \<mapsto> PString ''hi'']) =
     BasicEvent \<lparr>Type = ''temp'', Time = 7, Data = PMap [''other'' \<mapsto> PString ''hi'']\<rparr>"
    using e by (simp add: lacks_def)
  from 1 2 3 4 5 show ?thesis by blast
qed

lemma value_switch_recognized:
  "numeric d \<noteq> None \<or> valuer d \<noteq> None \<or> stringable d \<noteq> None \<Longrightarrow>
   value_switch base d \<noteq> None"
  by (induction base d rule: value_switch.induct) auto

lemma value_switch_independent_of_base:
  "value_switch base d = Some ev \<Longrightarrow>
   \<exists>ev'. value_switch base' d = Some ev' \<and> kind_of ev' = kind_of ev
     \<and> GetValue ev' = GetValue ev \<and> GetMessage ev' = GetMessage ev"
  by (cases d) (auto split: option.splits elim: value_switch.elims)

text \<open>
  C10, as the claim states it, fails for a stringable object that also has the value
  capability: the switch on the \<open>value\<close> entry tries \<^verbatim>\<open>Valuer\<close> before \<^verbatim>\<open>string\<close>
  and \<^verbatim>\<open>fmt.Stringer\<close>, so the event is a value event and carries no message.
\<close>

theorem NewEvent_stringable_valuer_entry_is_value_event:
  "stringable (PObject (Some (Finite 3)) (Some ''three'')) = Some ''three''
   \<and> NewEvent 7 ''temp'' (PMap [''value'' \<mapsto> PObject (Some (Finite 3)) (Some ''three'')]) =
       ValueEvent
         (BasicEvent \<lparr>Type = ''temp'', Time = 7,
                      Data = PMap [''value'' \<mapsto> PObject (Some (Finite 3)) (Some ''three'')]\<rparr>)
         (Finite 3)
   \<and> kind_of (NewEvent 7 ''temp''
                (PMap [''value'' \<mapsto> PObject (Some (Finite 3)) (Some ''three'')])) = Value
   \<and> GetMessage (NewEvent 7 ''temp''
                   (PMap [''value'' \<mapsto> PObject (Some (Finite 3)) (Some ''three'')])) = None"
  by simp

text \<open>
  C10, amended. When the \<open>value\<close> entry of a mapping is a string, or a stringable object
  without the value capability, the event is a message event carrying that text, whatever
  the \<open>message\<close> entry is. When the \<open>value\<close> entry is an object with the value
  capability, stringable or not, the event is a value event carrying its value. The
  \<open>message\<close> entry decides nothing as long as the \<open>value\<close> entry has a recognized shape:
  replacing it changes neither the specialization nor the value or message carried. It is
  consulted when the \<open>value\<close> entry is absent or of an unrecognized shape, and then
  supplies the message.
\<close>

theorem NewEvent_value_entry_text:
  "(m ''value'' = Some d \<and> numeric d = None \<and> valuer d = None \<and> stringable d = Some s \<longrightarrow>
      NewEvent now t (PMap m) =
        MessageEvent (BasicEvent \<lparr>Type = t, Time = now, Data = PMap m\<rparr>) s)
   \<and> (m ''value'' = Some d \<and> valuer d = Some v \<longrightarrow>
        NewEvent now t (PMap m) =
          ValueEvent (BasicEvent \<lparr>Type = t, Time = now, Data = PMap m\<rparr>) v)
   \<and> (m ''value'' = Some d
        \<and> (numeric d \<noteq> None \<or> valuer d \<noteq> None \<or> stringable d \<noteq> None) \<longrightarrow>
        kind_of (NewEvent now t (PMap (m(''message'' := x)))) = kind_of (NewEvent now t (PMap m))
        \<and> GetValue (NewEvent now t (PMap (m(''message'' := x)))) = GetValue (NewEvent now t (PMap m))
        \<and> GetMessage (NewEvent now t (PMap (m(''message'' := x)))) = GetMessage (NewEvent now t (PMap m)))
   \<and> (lacks numeric (m ''value'') \<and> lacks valuer (m ''value'') \<and> lacks stringable (m ''value'')
        \<and> m ''message'' = Some d' \<and> stringable d' = Some s' \<longrightarrow>
        NewEvent now t (PMap m) =
          MessageEvent (BasicEvent \<lparr>Type = t, Time = now, Data = PMap m\<rparr>) s')"
proof (intro conjI impI)
  assume "m ''value'' = Some d \<and> numeric d = None \<and> valuer d = None \<and> stringable d = Some s"
  then show "NewEvent now t (PMap m) =
        MessageEvent (BasicEvent \<lparr>Type = t, Time = now, Data = PMap m\<rparr>) s"
    by (simp add: value_switch_stringable)
next
  assume "m ''value'' = Some d \<and> valuer d = Some v"
  then show "NewEvent now t (PMap m) =
        ValueEvent (BasicEvent \<lparr>Type = t, Time = now, Data = PMap m\<rparr>) v"
    by (simp add: value_switch_valuer)
next
  let ?m' = "m(''message'' := x)"
  let ?base = "BasicEvent \<lparr>Type = t, Time = now, Data = PMap m\<rparr>"
  let ?base' = "BasicEvent \<lparr>Type = t, Time = now, Data = PMap ?m'\<rparr>"
  assume a: "m ''value'' = Some d
        \<and> (numeric d \<noteq> None \<or> valuer d \<noteq> None \<or> stringable d \<noteq> None)"
  then have "value_switch ?base d \<noteq> None"
    by (simp add: value_switch_recognized)
  then obtain ev where ev: "value_switch ?base d = Some ev"
    by blast
  then obtain ev' where ev': "value_switch ?base' d = Some ev'"
      "kind_of ev' = kind_of ev" "GetValue ev' = GetValue ev" "GetMessage ev' = GetMessage ev"
    using value_switch_independent_of_base [of ?base d ev ?base'] by blast
  have 1: "NewEvent now t (PMap m) = ev"
    using a ev by simp
  have 2: "NewEvent now t (PMap ?m') = ev'"
    using a ev' by simp
  show "kind_of (NewEvent now t (PMap ?m')) = kind_of (NewEvent now t (PMap m))"
    using 1 2 ev' by simp
  show "GetValue (NewEvent now t (PMap ?m')) = GetValue (NewEvent now t (PMap m))"
    using 1 2 ev' by simp
  show "GetMessage (NewEvent now t (PMap ?m')) = GetMessage (NewEvent now t (PMap m))"
    using 1 2 ev' by simp
next
  let ?base = "BasicEvent \<lparr>Type = t, Time = now, Data = PMap m\<rparr>"
  assume a: "lacks numeric (m ''value'') \<and> lacks valuer (m ''value'')
        \<and> lacks stringable (m ''value'') \<and> m ''message'' = Some d' \<and> stringable d' = Some s'"
  have v: "(case m ''value'' of None \<Rightarrow> None | Some d \<Rightarrow> value_switch ?base d) = None"
    using a by (auto simp: lacks_def value_switch_unrecognized split: option.splits)
  show "NewEvent now t (PMap m) = MessageEvent ?base s'"
    using v a by (simp add: message_switch_stringable)
qed

theorem NewEvent_value_entry_text_witness:
  "NewEvent 7 ''temp'' (PMap [''value'' \<mapsto> PString ''high'', ''message'' \<mapsto> PString ''hi'']) =
     MessageEvent (BasicEvent \<lparr>Type = ''temp'', Time = 7,
                    Data = PMap [''value'' \<mapsto> PString ''high'', ''message'' \<mapsto> PString ''hi'']\<rparr>) ''high''
   \<and> GetMessage (NewEvent 7 ''temp'' (PMap ([''value'' \<mapsto> PString ''high'', ''message'' \<mapsto> PString ''hi'']
                                              (''message'' := None)))) = Some ''high''
   \<and> NewEvent 7 ''temp'' (PMap [''value'' \<mapsto> PNil, ''message'' \<mapsto> PString ''hi'']) =
     MessageEvent (BasicEvent \<lparr>Type = ''temp'', Time = 7,
                    Data = PMap [''value'' \<mapsto> PNil, ''message'' \<mapsto> PString ''hi'']\<rparr>) ''hi''
   \<and> NewEvent 7 ''temp'' (PMap [''value'' \<mapsto> PObject None (Some ''low''),
                                   ''message'' \<mapsto> PString ''hi'']) =
     MessageEvent (BasicEvent \<lparr>Type = ''temp'', Time = 7,
                    Data = PMap [''value'' \<mapsto> PObject None (Some ''low''),
                                 ''message'' \<mapsto> PString ''hi'']\<rparr>) ''low''
   \<and> NewEvent 7 ''temp'' (PMap [''value'' \<mapsto> PObject (Some (Finite 3)) (Some ''three''),
                                   ''message'' \<mapsto> PString ''hi'']) =
     ValueEvent (BasicEvent \<lparr>Type = ''temp'', Time = 7,
                    Data = PMap [''value'' \<mapsto> PObject (Some (Finite 3)) (Some ''three''),
                                 ''message'' \<mapsto> PString ''hi'']\<rparr>) (Finite 3)"
proof -
  have 4: "NewEvent 7 ''temp'' (PMap [''value'' \<mapsto> PObject None (Some ''low''),
                                   ''message'' \<mapsto> PString ''hi'']) =
     MessageEvent (BasicEvent \<lparr>Type = ''temp'', Time = 7,
                    Data = PMap [''value'' \<mapsto> PObject None (Some ''low''),
                                 ''message'' \<mapsto> PString ''hi'']\<rparr>) ''low''"
    using NewEvent_value_entry_text
            [where now = 7 and t = "''temp''" and d = "PObject None (Some ''low'')"
               and s = "''low''"
               and m = "[''value'' \<mapsto> PObject None (Some ''low''), ''message'' \<mapsto> PString ''hi'']"]
    by simp
  have 5: "NewEvent 7 ''temp'' (PMap [''value'' \<mapsto> PObject (Some (Finite 3)) (Some ''three''),
                                   ''message'' \<mapsto> PString ''hi'']) =
     ValueEvent (BasicEvent \<lparr>Type = ''temp'', Time = 7,
                    Data = PMap [''value'' \<mapsto> PObject (Some (Finite 3)) (Some ''three''),
                                 ''message'' \<mapsto> PString ''hi'']\<rparr>) (Finite 3)"
    using NewEvent_value_entry_text
            [where now = 7 and t = "''temp''" and d = "PObject (Some (Finite 3)) (Some ''three'')"
               and v = "Finite 3"
               and m = "[''value'' \<mapsto> PObject (Some (Finite 3)) (Some ''three''),
                         ''message'' \<mapsto> PString ''hi'']"]
    by simp
  note a = NewEvent_value_entry_text
             [where now = 7 and t = "''temp''" and d = "PString ''high''" and s = "''high''"
                and m = "[''value'' \<mapsto> PString ''high'', ''message'' \<mapsto> PString ''hi'']"
                and x = None]
  note b = NewEvent_value_entry_text
             [where now = 7 and t = "''temp''" and d' = "PString ''hi''" and s' = "''hi''"
                and m = "[''value'' \<mapsto> PNil, ''message'' \<mapsto> PString ''hi'']"]
  have 1: "NewEvent 7 ''temp'' (PMap [''value'' \<mapsto> PString ''high'', ''message'' \<mapsto> PString ''hi'']) =
     MessageEvent (BasicEvent \<lparr>Type = ''temp'', Time = 7,
                    Data = PMap [''value'' \<mapsto> PString ''high'', ''message'' \<mapsto> PString ''hi'']\<rparr>) ''high''"
    using a by simp
  have 2: "GetMessage (NewEvent 7 ''temp'' (PMap ([''value'' \<mapsto> PString ''high'', ''message'' \<mapsto> PString ''hi'']
                                              (''message'' := None)))) = Some ''high''"
    using a by simp
  have 3: "NewEvent 7 ''temp'' (PMap [''value'' \<mapsto> PNil, ''message'' \<mapsto> PString ''hi'']) =
     MessageEvent (BasicEvent \<lparr>Type = ''temp'', Time = 7,
                    Data = PMap [''value'' \<mapsto> PNil, ''message'' \<mapsto> PString ''hi'']\<rparr>) ''hi''"
    using b by (simp add: lacks_def)
  from 1 2 3 4 5 show ?thesis by blast
qed

section \<open>Properties of the handler filters\<close>

lemma Call_keeps_ID: "Call h ev w = (err, h', w') \<Longrightarrow> ID h' = ID h"
proof (induction h arbitrary: err h' w' w)
  case (BasicEventHandler i f lastErr)
  then show ?case by (auto split: prod.splits)
next
  case (MaxCallsHandler h maxCalls calls)
  then show ?case by (fastforce split: prod.splits if_splits option.splits)
next
  case (TimeoutHandler h endTime)
  then show ?case by (fastforce split: prod.splits if_splits)
next
  case (DirectionHandler h targetDirection lastValue currentDirection)
  then show ?case
    by (simp only: Call.simps Let_def split: option.splits if_splits prod.splits)
       (auto simp del: Call.simps)
next
  case (ThresholdHandler h direction triggerVal resetVal triggered)
  then show ?case
    by (simp only: Call.simps Let_def split: option.splits if_splits prod.splits)
       (auto simp del: Call.simps)
next
  case (RangeHandler h minv maxv)
  then show ?case
    by (simp only: Call.simps Let_def split: option.splits if_splits prod.splits)
       (auto simp del: Call.simps)
next
  case (DebounceHandler h ttl lastv)
  then show ?case by (fastforce simp: Let_def split: prod.splits if_splits)
qed

lemma f64_le_not_gt: "f64_le a b \<Longrightarrow> \<not> f64_gt a b"
  by (cases a; cases b) (simp_all add: f64_gt_def)

lemma f64_lt_iff_not_le: "\<not> IsNaN a \<Longrightarrow> \<not> IsNaN b \<Longrightarrow> f64_lt a b = (\<not> f64_le b a)"
  by (cases a; cases b) auto

lemma f64_le_not_NaN: "f64_le a b \<Longrightarrow> \<not> IsNaN a \<and> \<not> IsNaN b"
  by (cases a; cases b) simp_all

lemma f64_lt_not_NaN: "f64_lt a b \<Longrightarrow> \<not> IsNaN a \<and> \<not> IsNaN b"
  by (cases a; cases b) simp_all

text \<open>With \<open>min \<le> max\<close> the range filter forwards exactly the values of \<open>[min, max]\<close>.\<close>

lemma range_with_ordered_bounds:
  assumes "f64_le minv maxv" and "GetValue ev = Some val" and "\<not> IsNaN val"
  shows "Call (WithRange h minv maxv) ev w =
           (if f64_le minv val \<and> f64_le val maxv then
              (case Call h ev w of (err, h', w') \<Rightarrow> (err, WithRange h' minv maxv, w'))
            else (Some ErrIgnored, WithRange h minv maxv, w))"
proof -
  from assms have n: "\<not> IsNaN minv" "\<not> IsNaN maxv"
    using f64_le_not_NaN by blast+
  have "f64_lt val minv = (\<not> f64_le minv val)" "f64_gt val maxv = (\<not> f64_le val maxv)"
    using n assms(3) by (simp_all add: f64_lt_iff_not_le f64_gt_def)
  then show ?thesis
    using assms f64_le_not_gt [of minv maxv] by (simp add: WithRange_def)
qed

text \<open>
  With \<open>min > max\<close> the test of the filter is the same \<open>val < min || val > max\<close>, which
  then holds of every number: the filter forwards every value event but a NaN.
\<close>

lemma range_with_inverted_bounds:
  assumes "f64_gt minv maxv" and "GetValue ev = Some val" and "\<not> IsNaN val"
  shows "Call (WithRange h minv maxv) ev w =
           (case Call h ev w of (err, h', w') \<Rightarrow> (err, WithRange h' minv maxv, w'))"
proof -
  have "f64_lt val minv \<or> f64_gt val maxv"
    using assms(1,3) by (cases minv; cases maxv; cases val) (auto simp: f64_gt_def)
  then show ?thesis
    using assms by (simp add: WithRange_def)
qed

text \<open>
  C1. The range filter with \<open>min = 10\<close> and \<open>max = 5\<close> is given the value \<open>7\<close>, strictly
  inside the open interval \<open>(5, 10)\<close>: it forwards the event to the inner handler, whose
  callback records it, and returns no error.
\<close>

theorem range_inverted_admits_inside:
  "Call (WithRange (NewEventHandler 1 recorder) (Finite 10) (Finite 5)) (reading 7) [] =
     (None, WithRange (BasicEventHandler 1 recorder None) (Finite 10) (Finite 5), [reading 7])"
  by (simp add: WithRange_def NewEventHandler_def recorder_def reading_def f64_gt_def)

text \<open>
  C2. The direction filter with target \<^verbatim>\<open>reverse\<close> is fed the values \<open>1, 2, 3, 2\<close>. The
  first only sets the baseline. Each of the three others is forwarded to the inner
  handler: the filter compares every value with the baseline \<open>1\<close>, which it never
  replaces, and the direction it recorded stays the empty one.
\<close>

theorem direction_reverse_admits_three_times:
  "feed (WithDirection (NewEventHandler 1 recorder) DirectionReverse)
        [reading 1, reading 2, reading 3, reading 2] [] =
     ([Some ErrIgnored, None, None, None],
      DirectionHandler (BasicEventHandler 1 recorder None) DirectionReverse (Finite 1) DirectionNone,
      [reading 2, reading 3, reading 2])"
  by (simp add: WithDirection_def NewEventHandler_def recorder_def reading_def f64_gt_def
        DirectionReverse_def DirectionNone_def DirectionIncreasing_def DirectionDecreasing_def)



section \<open>The max-calls wrapper\<close>

lemma successes_Nil: "successes [] = 0"
  by (simp add: successes_def)

lemma successes_Cons: "successes (err # errs) = (if err = None then 1 else 0) + successes errs"
  by (simp add: successes_def)

lemma maxCalls_step:
  assumes "calls < maxCalls" and "Call h ev w = (err, h', w')"
  shows "Call (MaxCallsHandler h maxCalls calls) ev w =
           (seen_through err, MaxCallsHandler h' maxCalls (calls + successes [err]), w')"
  using assms by (cases err) (simp_all add: seen_through_def successes_Cons successes_Nil)

lemma maxCalls_spent:
  "maxCalls \<le> calls \<Longrightarrow>
   feed (MaxCallsHandler h maxCalls calls) evs w =
     (replicate (length evs) (Some ErrExpired), MaxCallsHandler h maxCalls calls, w)"
  by (induction evs) simp_all

lemma maxCalls_feed:
  "calls < maxCalls \<Longrightarrow>
   \<exists>pre post errs h' w'.
     evs = pre @ post \<and> feed h pre w = (errs, h', w')
     \<and> feed (MaxCallsHandler h maxCalls calls) evs w =
         (map seen_through errs @ replicate (length post) (Some ErrExpired),
          MaxCallsHandler h' maxCalls (calls + successes errs), w')
     \<and> calls + successes (butlast errs) < maxCalls
     \<and> calls + successes errs \<le> maxCalls
     \<and> (post \<noteq> [] \<longrightarrow> calls + successes errs = maxCalls)"
proof (induction evs arbitrary: h w calls)
  case Nil
  have "[] = [] @ ([]::event list)" "feed h [] w = ([], h, w)"
    by simp_all
  moreover have "feed (MaxCallsHandler h maxCalls calls) [] w =
      (map seen_through [] @ replicate (length ([]::event list)) (Some ErrExpired),
       MaxCallsHandler h maxCalls (calls + successes []), w)"
    by (simp add: successes_Nil)
  moreover have "calls + successes (butlast []) < maxCalls" "calls + successes [] \<le> maxCalls"
    using Nil by (simp_all add: successes_Nil)
  ultimately show ?case by blast
next
  case (Cons ev evs)
  obtain err h1 w1 where step: "Call h ev w = (err, h1, w1)"
    by (cases "Call h ev w") auto
  let ?c1 = "calls + successes [err]"
  have wrapped: "Call (MaxCallsHandler h maxCalls calls) ev w =
      (seen_through err, MaxCallsHandler h1 maxCalls ?c1, w1)"
    using Cons.prems step by (rule maxCalls_step)
  have c1_le: "?c1 \<le> maxCalls"
    using Cons.prems by (simp add: successes_Cons successes_Nil)
  show ?case
  proof (cases "?c1 < maxCalls")
    case False
    then have spent: "maxCalls \<le> ?c1" by simp
    have "ev # evs = [ev] @ evs" by simp
    moreover have "feed h [ev] w = ([err], h1, w1)"
      using step by simp
    moreover have "feed (MaxCallsHandler h maxCalls calls) (ev # evs) w =
        (map seen_through [err] @ replicate (length evs) (Some ErrExpired),
         MaxCallsHandler h1 maxCalls ?c1, w1)"
      using wrapped maxCalls_spent [OF spent, of h1 evs w1] by simp
    moreover have "calls + successes (butlast [err]) < maxCalls"
      using Cons.prems by (simp add: successes_Nil)
    moreover have "?c1 = maxCalls"
      using spent c1_le by simp
    ultimately show ?thesis by (metis order_refl)
  next
    case True
    from Cons.IH [OF True, of h1 w1]
    obtain pre post errs h' w' where ih:
      "evs = pre @ post" "feed h1 pre w1 = (errs, h', w')"
      "feed (MaxCallsHandler h1 maxCalls ?c1) evs w1 =
         (map seen_through errs @ replicate (length post) (Some ErrExpired),
          MaxCallsHandler h' maxCalls (?c1 + successes errs), w')"
      "?c1 + successes (butlast errs) < maxCalls"
      "?c1 + successes errs \<le> maxCalls"
      "post \<noteq> [] \<longrightarrow> ?c1 + successes errs = maxCalls"
      by blast
    have sum: "calls + successes (err # errs) = ?c1 + successes errs"
      by (simp add: successes_Cons successes_Nil)
    have "ev # evs = (ev # pre) @ post"
      using ih(1) by simp
    moreover have "feed h (ev # pre) w = (err # errs, h', w')"
      using step ih(2) by simp
    moreover have "feed (MaxCallsHandler h maxCalls calls) (ev # evs) w =
        (map seen_through (err # errs) @ replicate (length post) (Some ErrExpired),
         MaxCallsHandler h' maxCalls (calls + successes (err # errs)), w')"
      using wrapped ih(3) sum by simp
    moreover have "calls + successes (butlast (err # errs)) < maxCalls"
    proof (cases errs)
      case Nil
      then show ?thesis using Cons.prems by (simp add: successes_Nil)
    next
      case (Cons e es)
      then have "calls + successes (butlast (err # errs)) = ?c1 + successes (butlast errs)"
        by (simp add: successes_Cons successes_Nil)
      then show ?thesis using ih(4) by simp
    qed
    moreover have "calls + successes (err # errs) \<le> maxCalls"
      using ih(5) sum by (simp add: add.assoc)
    moreover have "post \<noteq> [] \<longrightarrow> calls + successes (err # errs) = maxCalls"
      using ih(6) sum by (simp add: add.assoc)
    ultimately show ?thesis by blast
  qed
qed

text \<open>
  C7, as the claim states it, fails: wrapped with a maximum of one call, a handler whose
  callback fails is called with each of three events; no call returns the expired signal,
  and the wrapper does not report itself expired.
\<close>

theorem maxCalls_forwards_failed_calls_unboundedly:
  "feed (WithMaxCalls (NewEventHandler 1 failing) 1) [reading 1, reading 2, reading 3] [] =
     ([Some (ErrorNew ''boom''), Some (ErrorNew ''boom''), Some (ErrorNew ''boom'')],
      MaxCallsHandler (BasicEventHandler 1 failing (Some (ErrorNew ''boom''))) 1 0,
      [reading 1, reading 2, reading 3])
   \<and> Expired (MaxCallsHandler (BasicEventHandler 1 failing (Some (ErrorNew ''boom''))) 1 0) 0 = False"
  by (simp add: WithMaxCalls_def NewEventHandler_def failing_def)

text \<open>
  C7, amended. With \<open>maxCalls \<le> 0\<close>, \<open>WithMaxCalls\<close> returns the handler itself. With
  \<open>maxCalls > 0\<close>, a sequence of events fed to the wrapper splits into a first part
  \<open>pre\<close> and a rest \<open>post\<close>: each event of \<open>pre\<close> is forwarded to the wrapped handler
  \<open>h\<close>, in order, and the caller sees what \<open>h\<close> returned (the ignored signal as no
  error); each event of \<open>post\<close> gets the expired signal and reaches neither \<open>h\<close> nor the
  world. The wrapper counts the forwarded calls that returned no error: it forwards as
  long as fewer than \<open>maxCalls\<close> have done so, never counts more than \<open>maxCalls\<close>, and
  \<open>post\<close> begins only once the count is \<open>maxCalls\<close>. From then on every call returns the
  expired signal and changes nothing, and \<open>Expired\<close> holds at every time.
\<close>

theorem maxCalls_counts_successful_calls:
  "(maxCalls \<le> 0 \<longrightarrow> WithMaxCalls h maxCalls = h)
   \<and> (0 < maxCalls \<longrightarrow>
        (\<exists>pre post errs h' w'.
           evs = pre @ post \<and> feed h pre w = (errs, h', w')
           \<and> feed (WithMaxCalls h maxCalls) evs w =
               (map seen_through errs @ replicate (length post) (Some ErrExpired),
                MaxCallsHandler h' maxCalls (successes errs), w')
           \<and> successes (butlast errs) < maxCalls
           \<and> successes errs \<le> maxCalls
           \<and> (post \<noteq> [] \<longrightarrow> successes errs = maxCalls)))
   \<and> (0 < maxCalls \<and> maxCalls \<le> calls \<longrightarrow>
        feed (MaxCallsHandler h maxCalls calls) evs w =
          (replicate (length evs) (Some ErrExpired), MaxCallsHandler h maxCalls calls, w)
        \<and> Expired (MaxCallsHandler h maxCalls calls) now)"
proof (intro conjI impI)
  assume "maxCalls \<le> 0"
  then show "WithMaxCalls h maxCalls = h"
    by (simp add: WithMaxCalls_def)
next
  assume pos: "0 < maxCalls"
  then have w: "WithMaxCalls h maxCalls = MaxCallsHandler h maxCalls 0"
    by (simp add: WithMaxCalls_def)
  from maxCalls_feed [OF pos, of evs h w]
  show "\<exists>pre post errs h' w'.
           evs = pre @ post \<and> feed h pre w = (errs, h', w')
           \<and> feed (WithMaxCalls h maxCalls) evs w =
               (map seen_through errs @ replicate (length post) (Some ErrExpired),
                MaxCallsHandler h' maxCalls (successes errs), w')
           \<and> successes (butlast errs) < maxCalls
           \<and> successes errs \<le> maxCalls
           \<and> (post \<noteq> [] \<longrightarrow> successes errs = maxCalls)"
    unfolding w by simp
next
  assume a: "0 < maxCalls \<and> maxCalls \<le> calls"
  then show "feed (MaxCallsHandler h maxCalls calls) evs w =
          (replicate (length evs) (Some ErrExpired), MaxCallsHandler h maxCalls calls, w)"
    by (simp add: maxCalls_spent)
  from a show "Expired (MaxCallsHandler h maxCalls calls) now"
    by simp
qed

theorem maxCalls_counts_successful_calls_witness:
  "(0::int) < 2
   \<and> (\<exists>pre post errs h' w'.
         [reading 1, reading 2, reading 3] = pre @ post
         \<and> feed (NewEventHandler 1 recorder) pre [] = (errs, h', w')
         \<and> feed (WithMaxCalls (NewEventHandler 1 recorder) 2) [reading 1, reading 2, reading 3] [] =
             (map seen_through errs @ replicate (length post) (Some ErrExpired),
              MaxCallsHandler h' 2 (successes errs), w')
         \<and> successes (butlast errs) < 2
         \<and> successes errs \<le> 2
         \<and> (post \<noteq> [] \<longrightarrow> successes errs = 2))
   \<and> feed (MaxCallsHandler (NewEventHandler 1 recorder) 2 2) [reading 1, reading 2, reading 3] [] =
       ([Some ErrExpired, Some ErrExpired, Some ErrExpired],
        MaxCallsHandler (NewEventHandler 1 recorder) 2 2, [])
   \<and> Expired (MaxCallsHandler (NewEventHandler 1 recorder) 2 2) 0
   \<and> feed (WithMaxCalls (NewEventHandler 1 recorder) 2) [reading 1, reading 2, reading 3] [] =
       ([None, None, Some ErrExpired], MaxCallsHandler (BasicEventHandler 1 recorder None) 2 2,
        [reading 1, reading 2])
   \<and> WithMaxCalls (NewEventHandler 1 recorder) 0 = NewEventHandler 1 recorder"
proof -
  have 5: "WithMaxCalls (NewEventHandler 1 recorder) 0 = NewEventHandler 1 recorder"
    using maxCalls_counts_successful_calls
            [where maxCalls = 0 and h = "NewEventHandler 1 recorder"]
    by simp
  note t = maxCalls_counts_successful_calls
             [where maxCalls = 2 and calls = 2 and h = "NewEventHandler 1 recorder"
                and evs = "[reading 1, reading 2, reading 3]" and w = "[]" and now = 0]
  have pos: "(0::int) < 2" by simp
  have 1: "\<exists>pre post errs h' w'.
         [reading 1, reading 2, reading 3] = pre @ post
         \<and> feed (NewEventHandler 1 recorder) pre [] = (errs, h', w')
         \<and> feed (WithMaxCalls (NewEventHandler 1 recorder) 2) [reading 1, reading 2, reading 3] [] =
             (map seen_through errs @ replicate (length post) (Some ErrExpired),
              MaxCallsHandler h' 2 (successes errs), w')
         \<and> successes (butlast errs) < 2
         \<and> successes errs \<le> 2
         \<and> (post \<noteq> [] \<longrightarrow> successes errs = 2)"
    using t pos by blast
  have 2: "feed (MaxCallsHandler (NewEventHandler 1 recorder) 2 2) [reading 1, reading 2, reading 3] [] =
       ([Some ErrExpired, Some ErrExpired, Some ErrExpired],
        MaxCallsHandler (NewEventHandler 1 recorder) 2 2, [])"
    using t by simp
  have 3: "Expired (MaxCallsHandler (NewEventHandler 1 recorder) 2 2) 0"
    using t by simp
  have 4: "feed (WithMaxCalls (NewEventHandler 1 recorder) 2) [reading 1, reading 2, reading 3] [] =
       ([None, None, Some ErrExpired], MaxCallsHandler (BasicEventHandler 1 recorder None) 2 2,
        [reading 1, reading 2])"
    by (simp add: WithMaxCalls_def NewEventHandler_def recorder_def)
  from pos 1 2 3 4 5 show ?thesis by blast
qed

section \<open>Properties of the sink\<close>

lemma errors_Is_Ignored_not_Expired: "errors_Is e ErrIgnored \<Longrightarrow> \<not> errors_Is e ErrExpired"
  by (induction e) auto

lemma neg_duration_in_range:
  "- (2 ^ 63) < d \<Longrightarrow> d < 2 ^ 63 \<Longrightarrow> neg_duration d = - d"
  by (simp add: neg_duration_def sint_word_ariths sint_sbintrunc' signed_take_bit_int_eq_self)

lemma neg_duration_least: "neg_duration (- (2 ^ 63)) = - (2 ^ 63)"
  by (simp add: neg_duration_def)

lemma remove_loop_out:
  "fst (remove_loop st clk eventType i rs) = filter (\<lambda>r. ID (st r) \<noteq> i) rs"
  by (induction rs arbitrary: clk) (simp_all add: case_prod_beta)

lemma remove_loop_evts:
  "snd (remove_loop st clk eventType i rs) =
     map (\<lambda>k. listener_removed_event (clk k) eventType i)
       [0 ..< length (filter (\<lambda>r. ID (st r) = i) rs)]"
proof (induction rs arbitrary: clk)
  case Nil
  then show ?case by simp
next
  case (Cons eh rest)
  show ?case
  proof (cases "ID (st eh) = i")
    case False
    then show ?thesis using Cons [of clk] by (simp add: case_prod_beta)
  next
    case True
    have "snd (remove_loop st clk eventType i (eh # rest)) =
            listener_removed_event (clk 0) eventType i
            # snd (remove_loop st (\<lambda>n. clk (Suc n)) eventType i rest)"
      using True
      by (simp add: listener_removed_event_def EventTypeHandlerRemoved_def case_prod_beta)
    then show ?thesis
      using True Cons [of "\<lambda>n. clk (Suc n)"] by (simp add: map_upt_Suc del: upt_Suc)
  qed
qed

lemma Call_keeps_IDs_of_store:
  "Call (st xh) ev w = (err, h', w') \<Longrightarrow> ID ((st(xh := h')) r) = ID (st r)"
  using Call_keeps_ID [of "st xh" ev w err h' w'] by simp

lemma RemoveEventListener_result:
  "RemoveEventListener clk eventType h m =
     (m\<lparr>sink := (sink m)\<lparr>listeners :=
           without_handler (listeners (sink m)) (store m) eventType (ID h)\<rparr>\<rparr>,
      removal_tasks clk (listeners (sink m)) (store m) eventType (ID h))"
proof -
  let ?ls = "listeners_at (sink m) eventType"
  obtain out evts where l: "remove_loop (store m) clk eventType (ID h) ?ls = (out, evts)"
    by (cases "remove_loop (store m) clk eventType (ID h) ?ls") auto
  have out: "out = filter (\<lambda>r. ID (store m r) \<noteq> ID h) ?ls"
    using remove_loop_out [of "store m" clk eventType "ID h" ?ls] l by simp
  have evts: "evts = map (\<lambda>k. listener_removed_event (clk k) eventType (ID h))
                       [0 ..< length (filter (\<lambda>r. ID (store m r) = ID h) ?ls)]"
    using remove_loop_evts [of "store m" clk eventType "ID h" ?ls] l by simp
  have reg: "(if length out = 0 then (listeners (sink m))(eventType := None)
              else (listeners (sink m))(eventType \<mapsto> out)) =
             without_handler (listeners (sink m)) (store m) eventType (ID h)"
    using out by (simp add: without_handler_def listeners_at_def Let_def)
  have tasks: "map GoFire evts = removal_tasks clk (listeners (sink m)) (store m) eventType (ID h)"
    using evts by (simp add: removal_tasks_def listeners_at_def)
  show ?thesis
    using l reg tasks by (simp add: RemoveEventListener_def)
qed

lemma without_handler_cong_ID:
  "(\<And>r. ID (st' r) = ID (st r)) \<Longrightarrow>
   without_handler reg st' eventType hid = without_handler reg st eventType hid"
  by (simp add: without_handler_def)

lemma removal_tasks_cong_ID:
  "(\<And>r. ID (st' r) = ID (st r)) \<Longrightarrow>
   removal_tasks clk reg st' eventType hid = removal_tasks clk reg st eventType hid"
  by (simp add: removal_tasks_def)

lemma without_handler_unregisters:
  "ID (st xh) = hid \<Longrightarrow>
   xh \<notin> set (case without_handler reg st eventType hid eventType of None \<Rightarrow> [] | Some hs \<Rightarrow> hs)"
  by (simp add: without_handler_def Let_def)

lemma Fire_frame:
  "store (fst (Fire popIf now ev m)) = store m
   \<and> world (fst (Fire popIf now ev m)) = world m
   \<and> listeners (sink (fst (Fire popIf now ev m))) = listeners (sink m)
   \<and> eventlog (sink (fst (Fire popIf now ev m))) =
       popIf (\<lambda>x. GetTime x < now + neg_duration (logTTL (sink m))) (ev # eventlog (sink m))
   \<and> snd (Fire popIf now ev m) = map (\<lambda>q. GoCall q ev) (listeners_at (sink m) (GetType ev))"
  by (simp add: Fire_def Let_def)

lemma Emit_listener_error:
  "Emit popIf made now EventTypeHandlerError
     (PListenerMeta \<lparr>EventType = eventType, HandlerID = hid, Error = error_string e\<rparr>) m =
   Fire popIf now (listener_error_event made eventType hid e) m"
  by (simp add: Emit_def listener_error_event_def EventTypeHandlerError_def)

lemma remove_if_expired_not:
  "\<not> Expired (store m xh) asked \<Longrightarrow>
   remove_if_expired asked clk eventType xh (m, ts) = (m, ts)"
  by (simp add: remove_if_expired_def)

lemma remove_if_expired_result:
  "Expired (store m xh) asked \<Longrightarrow>
   remove_if_expired asked clk eventType xh (m, ts) =
     (m\<lparr>sink := (sink m)\<lparr>listeners :=
           without_handler (listeners (sink m)) (store m) eventType (ID (store m xh))\<rparr>\<rparr>,
      ts @ removal_tasks clk (listeners (sink m)) (store m) eventType (ID (store m xh)))"
  by (simp add: remove_if_expired_def RemoveEventListener_result)

lemma remove_if_expired_frame:
  "store (fst (remove_if_expired asked clk eventType xh (m, ts))) = store m
   \<and> world (fst (remove_if_expired asked clk eventType xh (m, ts))) = world m
   \<and> eventlog (sink (fst (remove_if_expired asked clk eventType xh (m, ts)))) = eventlog (sink m)
   \<and> eventTypes (sink (fst (remove_if_expired asked clk eventType xh (m, ts)))) =
       eventTypes (sink m)
   \<and> take (length ts) (snd (remove_if_expired asked clk eventType xh (m, ts))) = ts"
  by (cases "Expired (store m xh) asked")
     (simp_all add: remove_if_expired_result remove_if_expired_not)

text \<open>
  C9. A filter that reads the numeric value (direction, threshold, range), called with an
  event that is not a value event, returns the incompatible-event error and leaves itself,
  the inner handler and the world as they were. The error is not suppressed: a max-calls
  wrapper with calls left and a timeout wrapper within its time return it unchanged, and
  the sink's goroutine for such a listener emits a \<^verbatim>\<open>listener-error\<close> event with its
  text. Called with a value event whose value is NaN, the filter returns the ignored
  signal and leaves itself, the inner handler and the world as they were.
\<close>

theorem value_filters_on_unusable_events:
  "(inspects_value f \<and> GetValue ev = None \<longrightarrow>
      Call f ev w = (Some ErrIncompatibleEvent, f, w)
      \<and> (calls < maxCalls \<longrightarrow>
           Call (MaxCallsHandler f maxCalls calls) ev w =
             (Some ErrIncompatibleEvent, MaxCallsHandler f maxCalls calls, w))
      \<and> (GetTime ev \<le> endTime \<longrightarrow>
           Call (TimeoutHandler f endTime) ev w =
             (Some ErrIncompatibleEvent, TimeoutHandler f endTime, w))
      \<and> (store m xh = f \<longrightarrow>
           listener_goroutine popIf made now asked clk xh ev m =
             remove_if_expired asked clk (GetType ev) xh
               (Emit popIf made now EventTypeHandlerError
                  (PListenerMeta \<lparr>EventType = GetType ev, HandlerID = ID f,
                                   Error = ''incompatible event''\<rparr>) m)))
   \<and> (inspects_value f \<and> GetValue ev = Some val \<and> IsNaN val \<longrightarrow>
        Call f ev w = (Some ErrIgnored, f, w))"
proof (intro conjI impI)
  assume a: "inspects_value f \<and> GetValue ev = None"
  then show c: "Call f ev w = (Some ErrIncompatibleEvent, f, w)" for w
    by (cases f) simp_all
  {
    assume "calls < maxCalls"
    then show "Call (MaxCallsHandler f maxCalls calls) ev w =
             (Some ErrIncompatibleEvent, MaxCallsHandler f maxCalls calls, w)"
      using c [of w] by simp
  }
  {
    assume "GetTime ev \<le> endTime"
    then show "Call (TimeoutHandler f endTime) ev w =
             (Some ErrIncompatibleEvent, TimeoutHandler f endTime, w)"
      using c [of w] by simp
  }
  {
    assume s: "store m xh = f"
    have same: "m\<lparr>store := (store m)(xh := f), world := world m\<rparr> = m"
      using s by auto
    show "listener_goroutine popIf made now asked clk xh ev m =
             remove_if_expired asked clk (GetType ev) xh
               (Emit popIf made now EventTypeHandlerError
                  (PListenerMeta \<lparr>EventType = GetType ev, HandlerID = ID f,
                                   Error = ''incompatible event''\<rparr>) m)"
      using c [of "world m"] s same by (simp add: listener_goroutine_def Let_def)
  }
next
  assume "inspects_value f \<and> GetValue ev = Some val \<and> IsNaN val"
  then show "Call f ev w = (Some ErrIgnored, f, w)"
    by (cases f) simp_all
qed

theorem value_filters_on_unusable_events_witness:
  "Call (WithRange (NewEventHandler 1 recorder) (Finite 5) (Finite 10))
        (NewEvent 0 ''note'' (PString ''hi'')) [] =
     (Some ErrIncompatibleEvent, WithRange (NewEventHandler 1 recorder) (Finite 5) (Finite 10), [])
   \<and> Call (MaxCallsHandler (WithDirection (NewEventHandler 1 recorder) DirectionReverse) 3 0)
          (NewEvent 0 ''note'' (PString ''hi'')) [] =
     (Some ErrIncompatibleEvent,
      MaxCallsHandler (WithDirection (NewEventHandler 1 recorder) DirectionReverse) 3 0, [])
   \<and> Call (TimeoutHandler (WithDirection (NewEventHandler 1 recorder) DirectionReverse) 9)
          (NewEvent 0 ''note'' (PString ''hi'')) [] =
     (Some ErrIncompatibleEvent,
      TimeoutHandler (WithDirection (NewEventHandler 1 recorder) DirectionReverse) 9, [])
   \<and> eventlog (sink (fst (listener_goroutine drop_all 3 4 5 (\<lambda>k. 6) 0
                            (NewEvent 0 ''note'' (PString ''hi''))
        \<lparr>sink = NewEventSink 60,
         store = (\<lambda>r. WithThreshold (NewEventHandler 1 recorder) DirectionDecreasing
                         (Finite 10) (Finite 15)),
         world = []\<rparr>))) =
       [listener_error_event 3 ''note'' 1 ErrIncompatibleEvent]
   \<and> Call (WithThreshold (NewEventHandler 1 recorder) DirectionDecreasing (Finite 10) (Finite 15))
          (NewEvent 0 ''temp'' (PFloat64 NaN)) [] =
     (Some ErrIgnored,
      WithThreshold (NewEventHandler 1 recorder) DirectionDecreasing (Finite 10) (Finite 15), [])"
proof -
  let ?note = "NewEvent 0 ''note'' (PString ''hi'')"
  let ?th = "WithThreshold (NewEventHandler 1 recorder) DirectionDecreasing (Finite 10) (Finite 15)"
  let ?m = "\<lparr>sink = NewEventSink 60, store = (\<lambda>r. ?th), world = []\<rparr>"
  have 1: "Call (WithRange (NewEventHandler 1 recorder) (Finite 5) (Finite 10)) ?note [] =
     (Some ErrIncompatibleEvent, WithRange (NewEventHandler 1 recorder) (Finite 5) (Finite 10), [])"
    using value_filters_on_unusable_events
            [where f = "WithRange (NewEventHandler 1 recorder) (Finite 5) (Finite 10)"
               and ev = ?note and w = "[]"]
    by (simp add: WithRange_def)
  note d = value_filters_on_unusable_events
            [where f = "WithDirection (NewEventHandler 1 recorder) DirectionReverse"
               and ev = ?note and w = "[]" and calls = 0 and maxCalls = 3 and endTime = 9]
  have 2: "Call (MaxCallsHandler (WithDirection (NewEventHandler 1 recorder) DirectionReverse) 3 0)
          ?note [] =
     (Some ErrIncompatibleEvent,
      MaxCallsHandler (WithDirection (NewEventHandler 1 recorder) DirectionReverse) 3 0, [])"
    using d by (simp add: WithDirection_def)
  have 3: "Call (TimeoutHandler (WithDirection (NewEventHandler 1 recorder) DirectionReverse) 9)
          ?note [] =
     (Some ErrIncompatibleEvent,
      TimeoutHandler (WithDirection (NewEventHandler 1 recorder) DirectionReverse) 9, [])"
    using d by (simp add: WithDirection_def)
  have "listener_goroutine drop_all 3 4 5 (\<lambda>k. 6) 0 ?note ?m =
          remove_if_expired 5 (\<lambda>k. 6) (GetType ?note) 0
            (Emit drop_all 3 4 EventTypeHandlerError
               (PListenerMeta \<lparr>EventType = GetType ?note, HandlerID = ID ?th,
                                Error = ''incompatible event''\<rparr>) ?m)"
    using value_filters_on_unusable_events
            [where f = ?th and ev = ?note and m = ?m and xh = 0 and popIf = drop_all
               and made = 3 and now = 4 and asked = 5 and clk = "\<lambda>k. 6"]
    by (simp add: WithThreshold_def)
  then have 4: "eventlog (sink (fst (listener_goroutine drop_all 3 4 5 (\<lambda>k. 6) 0 ?note ?m))) =
       [listener_error_event 3 ''note'' 1 ErrIncompatibleEvent]"
    by (simp add: remove_if_expired_def WithThreshold_def NewEventHandler_def Emit_def Fire_def
          Let_def NewEventSink_def EventTypeHandlerError_def listener_error_event_def
          drop_all_def listeners_at_def neg_duration_in_range)
  have 5: "Call ?th (NewEvent 0 ''temp'' (PFloat64 NaN)) [] = (Some ErrIgnored, ?th, [])"
    using value_filters_on_unusable_events
            [where f = ?th and ev = "NewEvent 0 ''temp'' (PFloat64 NaN)" and val = NaN and w = "[]"]
    by (simp add: WithThreshold_def)
  from 1 2 3 4 5 show ?thesis by blast
qed

text \<open>
  C4. The goroutine that \<open>Fire\<close> starts for the listener \<open>xh\<close>, where the call of the
  listener returns \<open>err\<close> and leaves the handler as \<open>h'\<close> and the world as \<open>w'\<close>. In
  every case the handler object and the world are as the call left them.
  If \<open>err\<close> is the expired signal, the listener is removed from the registry: the
  handlers of its id are taken out of the list of the event type and nothing else of the
  registry changes. No \<^verbatim>\<open>listener-error\<close> event is emitted: the log and the catalog are
  as before, and the only tasks started fire the \<^verbatim>\<open>listener-remove\<close> events.
  If \<open>err\<close> is the ignored signal, or there is no error, and the listener does not report
  itself expired, the sink is unchanged and no task is started.
  If \<open>err\<close> is any other error, a \<^verbatim>\<open>listener-error\<close> event carrying the event type, the
  handler id and the text of the error is fired: it is put on the log, and the listeners of
  \<^verbatim>\<open>listener-error\<close> are started on it; if the listener does not report itself expired,
  the registry is unchanged and no other task is started.
  Whatever \<open>err\<close> is, if the listener then reports itself expired it is removed from
  the registry, in the same sense.
\<close>

theorem listener_outcomes:
  assumes "Call (store m xh) ev (world m) = (err, h', w')"
    and "R = listener_goroutine popIf made now asked clk xh ev m"
  shows
    "store (fst R) = (store m)(xh := h') \<and> world (fst R) = w'
     \<and> (err = Some e \<and> errors_Is e ErrExpired \<longrightarrow>
          listeners (sink (fst R)) =
            without_handler (listeners (sink m)) (store m) (GetType ev) (ID (store m xh))
          \<and> eventlog (sink (fst R)) = eventlog (sink m)
          \<and> eventTypes (sink (fst R)) = eventTypes (sink m)
          \<and> snd R =
              removal_tasks clk (listeners (sink m)) (store m) (GetType ev) (ID (store m xh)))
     \<and> (err = Some e \<and> errors_Is e ErrIgnored \<and> \<not> Expired h' asked \<longrightarrow>
          sink (fst R) = sink m \<and> snd R = [])
     \<and> (err = None \<and> \<not> Expired h' asked \<longrightarrow>
          sink (fst R) = sink m \<and> snd R = [])
     \<and> (err = Some e \<and> \<not> errors_Is e ErrExpired \<and> \<not> errors_Is e ErrIgnored \<longrightarrow>
          R = remove_if_expired asked clk (GetType ev) xh
                (Fire popIf now
                   (listener_error_event made (GetType ev) (ID (store m xh)) e)
                   (m\<lparr>store := (store m)(xh := h'), world := w'\<rparr>))
          \<and> eventlog (sink (fst R)) =
              popIf (\<lambda>x. GetTime x < now + neg_duration (logTTL (sink m)))
                (listener_error_event made (GetType ev) (ID (store m xh)) e # eventlog (sink m))
          \<and> take (length (listeners_at (sink m) ''listener-error'')) (snd R) =
              map (\<lambda>q. GoCall q (listener_error_event made (GetType ev) (ID (store m xh)) e))
                (listeners_at (sink m) ''listener-error'')
          \<and> (\<not> Expired h' asked \<longrightarrow>
               listeners (sink (fst R)) = listeners (sink m)
               \<and> snd R =
                   map (\<lambda>q. GoCall q (listener_error_event made (GetType ev) (ID (store m xh)) e))
                     (listeners_at (sink m) ''listener-error'')))
     \<and> (Expired h' asked \<longrightarrow>
          listeners (sink (fst R)) =
            without_handler (listeners (sink m)) (store m) (GetType ev) (ID (store m xh)))"
proof -
  let ?t = "GetType ev"
  let ?m1 = "m\<lparr>store := (store m)(xh := h'), world := w'\<rparr>"
  let ?id = "ID (store m xh)"
  let ?gone = "without_handler (listeners (sink m)) (store m) ?t ?id"
  have id: "ID h' = ?id"
    using assms(1) by (rule Call_keeps_ID)
  have ids: "ID (((store m)(xh := h')) r) = ID (store m r)" for r
    using assms(1) by (rule Call_keeps_IDs_of_store [of "store m" xh ev "world m" err h' w'])
  have gone1: "without_handler (listeners (sink m)) ((store m)(xh := h')) ?t ?id = ?gone"
    using ids by (rule without_handler_cong_ID)
  have tasks1: "removal_tasks clk (listeners (sink m)) ((store m)(xh := h')) ?t ?id =
                removal_tasks clk (listeners (sink m)) (store m) ?t ?id"
    using ids by (rule removal_tasks_cong_ID)
  have removed: "RemoveEventListener clk ?t h' ?m1 =
      (?m1\<lparr>sink := (sink m)\<lparr>listeners := ?gone\<rparr>\<rparr>,
       removal_tasks clk (listeners (sink m)) (store m) ?t ?id)"
    using RemoveEventListener_result [of clk ?t h' ?m1] id gone1 tasks1 by simp
  have checked: "remove_if_expired asked clk ?t xh (m2, ts) =
      (if Expired h' asked then
         (m2\<lparr>sink := (sink m2)\<lparr>listeners := ?gone\<rparr>\<rparr>,
          ts @ removal_tasks clk (listeners (sink m)) (store m) ?t ?id)
       else (m2, ts))"
    if "store m2 = (store m)(xh := h')" "listeners (sink m2) = listeners (sink m)" for m2 ts
    using that id gone1 tasks1
    by (simp add: remove_if_expired_result remove_if_expired_not)
  let ?errEv = "listener_error_event made ?t ?id e"
  obtain m2 ts where fired: "Fire popIf now ?errEv ?m1 = (m2, ts)"
    by (cases "Fire popIf now ?errEv ?m1") auto
  have m2: "store m2 = (store m)(xh := h')" "world m2 = w'"
      "listeners (sink m2) = listeners (sink m)"
      "eventlog (sink m2) =
         popIf (\<lambda>x. GetTime x < now + neg_duration (logTTL (sink m))) (?errEv # eventlog (sink m))"
    and ts: "ts = map (\<lambda>q. GoCall q ?errEv) (listeners_at (sink m) ''listener-error'')"
    using Fire_frame [of popIf now ?errEv ?m1] fired
    by (simp_all add: listener_error_event_def listeners_at_def)
  have r_signal: "R = RemoveEventListener clk ?t h' ?m1"
    if "err = Some e" "errors_Is e ErrExpired"
    using that assms by (simp add: listener_goroutine_def Let_def)
  have r_quiet: "R = remove_if_expired asked clk ?t xh (?m1, [])"
    if "err = None \<or> (err = Some e \<and> errors_Is e ErrIgnored)"
    using that assms errors_Is_Ignored_not_Expired [of e]
    by (auto simp: listener_goroutine_def Let_def)
  have r_reported: "R = remove_if_expired asked clk ?t xh (m2, ts)"
    if "err = Some e" "\<not> errors_Is e ErrExpired" "\<not> errors_Is e ErrIgnored"
    using that assms id fired Emit_listener_error [of popIf made now ?t ?id e ?m1]
    by (simp add: listener_goroutine_def Let_def)
  consider
      (signal) "err = Some e" "errors_Is e ErrExpired"
    | (quiet) "err = None \<or> (err = Some e \<and> errors_Is e ErrIgnored)"
        "\<not> (err = Some e \<and> errors_Is e ErrExpired)"
    | (reported) "err = Some e" "\<not> errors_Is e ErrExpired" "\<not> errors_Is e ErrIgnored"
    | (other) e' where "err = Some e'" "e' \<noteq> e"
    by (cases err) auto
  then show ?thesis
  proof cases
    case signal
    then have "R = (?m1\<lparr>sink := (sink m)\<lparr>listeners := ?gone\<rparr>\<rparr>,
                    removal_tasks clk (listeners (sink m)) (store m) ?t ?id)"
      using r_signal removed by simp
    then show ?thesis
      using signal errors_Is_Ignored_not_Expired [of e] by auto
  next
    case quiet
    then have "R = (if Expired h' asked then
         (?m1\<lparr>sink := (sink m)\<lparr>listeners := ?gone\<rparr>\<rparr>,
          [] @ removal_tasks clk (listeners (sink m)) (store m) ?t ?id)
       else (?m1, []))"
      using r_quiet checked [of ?m1 "[]"] by simp
    then show ?thesis
      using quiet by auto
  next
    case reported
    then have r: "R = remove_if_expired asked clk ?t xh (m2, ts)"
      using r_reported by simp
    then have "R = (if Expired h' asked then
         (m2\<lparr>sink := (sink m2)\<lparr>listeners := ?gone\<rparr>\<rparr>,
          ts @ removal_tasks clk (listeners (sink m)) (store m) ?t ?id)
       else (m2, ts))"
      using checked [of m2 ts] m2 by simp
    then show ?thesis
      using reported r fired m2 ts by auto
  next
    case other
    have g: "R = (if errors_Is e' ErrExpired then RemoveEventListener clk ?t h' ?m1
                  else remove_if_expired asked clk ?t xh
                         (if \<not> errors_Is e' ErrIgnored then
                            Fire popIf now (listener_error_event made ?t ?id e') ?m1
                          else (?m1, [])))"
      using other assms id Emit_listener_error [of popIf made now ?t ?id e' ?m1]
      by (simp add: listener_goroutine_def Let_def)
    obtain m3 ts3 where e3:
      "(if \<not> errors_Is e' ErrIgnored then
          Fire popIf now (listener_error_event made ?t ?id e') ?m1
        else (?m1, [])) = (m3, ts3)"
      by (cases "(if \<not> errors_Is e' ErrIgnored then
          Fire popIf now (listener_error_event made ?t ?id e') ?m1
        else (?m1, []))") auto
    then have "m3 = fst (if \<not> errors_Is e' ErrIgnored then
          Fire popIf now (listener_error_event made ?t ?id e') ?m1
        else (?m1, []))"
      by simp
    then have m3: "store m3 = (store m)(xh := h')" "world m3 = w'"
        "listeners (sink m3) = listeners (sink m)"
      by (simp_all add: Fire_frame)
    have "R = (if errors_Is e' ErrExpired then
                 (?m1\<lparr>sink := (sink m)\<lparr>listeners := ?gone\<rparr>\<rparr>,
                  removal_tasks clk (listeners (sink m)) (store m) ?t ?id)
               else if Expired h' asked then
                 (m3\<lparr>sink := (sink m3)\<lparr>listeners := ?gone\<rparr>\<rparr>,
                  ts3 @ removal_tasks clk (listeners (sink m)) (store m) ?t ?id)
               else (m3, ts3))"
      using g e3 removed checked [of m3 ts3] m3 by simp
    then show ?thesis
      using other m3 by auto
  qed
qed

theorem listener_outcomes_witness:
  "listeners (sink (fst (listener_goroutine drop_all 3 4 5 (\<lambda>k. 6 + int k) 0 (reading 3)
       (machine_with (MaxCallsHandler (NewEventHandler 1 recorder) 1 1))))) ''temp'' = Some [1]
   \<and> snd (listener_goroutine drop_all 3 4 5 (\<lambda>k. 6 + int k) 0 (reading 3)
       (machine_with (MaxCallsHandler (NewEventHandler 1 recorder) 1 1))) =
       [GoFire (listener_removed_event 6 ''temp'' 1)]
   \<and> sink (fst (listener_goroutine drop_all 3 4 5 (\<lambda>k. 6 + int k) 0 (reading 20)
            (machine_with (WithRange (NewEventHandler 1 recorder) (Finite 5) (Finite 10))))) =
       sink (machine_with (WithRange (NewEventHandler 1 recorder) (Finite 5) (Finite 10)))
   \<and> snd (listener_goroutine drop_all 3 4 5 (\<lambda>k. 6 + int k) 0 (reading 3)
            (machine_with (NewEventHandler 1 recorder))) = []
   \<and> eventlog (sink (fst (listener_goroutine drop_all 3 4 5 (\<lambda>k. 6 + int k) 0 (reading 3)
            (machine_with (NewEventHandler 1 failing))))) =
       [listener_error_event 3 ''temp'' 1 (ErrorNew ''boom'')]
   \<and> listeners (sink (fst (listener_goroutine drop_all 3 4 5 (\<lambda>k. 6 + int k) 0 (reading 3)
            (machine_with (NewEventHandler 1 failing))))) ''temp'' = Some [0, 1]
   \<and> listeners (sink (fst (listener_goroutine drop_all 3 4 10 (\<lambda>k. 11 + int k) 0 (reading 3)
            (machine_with (TimeoutHandler (NewEventHandler 1 recorder) 5))))) ''temp'' = Some [1]"
proof -
  let ?clk = "\<lambda>k. 6 + int k"
  let ?spent = "MaxCallsHandler (NewEventHandler 1 recorder) 1 1"
  have "Call (store (machine_with ?spent) 0) (reading 3) (world (machine_with ?spent)) =
          (Some ErrExpired, ?spent, [])"
    by (simp add: machine_with_def)
  note s = listener_outcomes [OF this refl, where e = ErrExpired and popIf = drop_all
             and made = 3 and now = 4 and asked = 5 and clk = ?clk]
  have 1: "listeners (sink (fst (listener_goroutine drop_all 3 4 5 ?clk 0 (reading 3)
       (machine_with ?spent)))) ''temp'' = Some [1]"
    using s by (simp add: reading_def machine_with_def without_handler_def NewEventHandler_def)
  have 2: "snd (listener_goroutine drop_all 3 4 5 ?clk 0 (reading 3) (machine_with ?spent)) =
       [GoFire (listener_removed_event 6 ''temp'' 1)]"
    using s by (simp add: reading_def machine_with_def removal_tasks_def NewEventHandler_def)
  let ?range = "WithRange (NewEventHandler 1 recorder) (Finite 5) (Finite 10)"
  have "Call (store (machine_with ?range) 0) (reading 20) (world (machine_with ?range)) =
          (Some ErrIgnored, ?range, [])"
    by (simp add: machine_with_def WithRange_def reading_def f64_gt_def)
  from listener_outcomes [OF this refl, where e = ErrIgnored and popIf = drop_all
         and made = 3 and now = 4 and asked = 5 and clk = ?clk]
  have 3: "sink (fst (listener_goroutine drop_all 3 4 5 ?clk 0 (reading 20) (machine_with ?range))) =
       sink (machine_with ?range)"
    by (simp add: WithRange_def NewEventHandler_def)
  let ?plain = "NewEventHandler 1 recorder"
  have "Call (store (machine_with ?plain) 0) (reading 3) (world (machine_with ?plain)) =
          (None, ?plain, [reading 3])"
    by (simp add: machine_with_def NewEventHandler_def recorder_def)
  from listener_outcomes [OF this refl, where popIf = drop_all
         and made = 3 and now = 4 and asked = 5 and clk = ?clk]
  have 4: "snd (listener_goroutine drop_all 3 4 5 ?clk 0 (reading 3) (machine_with ?plain)) = []"
    by (simp add: NewEventHandler_def)
  let ?bad = "NewEventHandler 1 failing"
  have "Call (store (machine_with ?bad) 0) (reading 3) (world (machine_with ?bad)) =
          (Some (ErrorNew ''boom''), BasicEventHandler 1 failing (Some (ErrorNew ''boom'')),
           [reading 3])"
    by (simp add: machine_with_def NewEventHandler_def failing_def)
  note b = listener_outcomes [OF this refl, where e = "ErrorNew ''boom''" and popIf = drop_all
             and made = 3 and now = 4 and asked = 5 and clk = ?clk]
  have 5: "eventlog (sink (fst (listener_goroutine drop_all 3 4 5 ?clk 0 (reading 3)
            (machine_with ?bad)))) = [listener_error_event 3 ''temp'' 1 (ErrorNew ''boom'')]"
    using b by (simp add: machine_with_def NewEventHandler_def reading_def drop_all_def
          listener_error_event_def neg_duration_in_range remove_if_expired_def Fire_def Let_def
          listeners_at_def)
  have 6: "listeners (sink (fst (listener_goroutine drop_all 3 4 5 ?clk 0 (reading 3)
            (machine_with ?bad)))) ''temp'' = Some [0, 1]"
    using b by (simp add: machine_with_def NewEventHandler_def reading_def drop_all_def
          listener_error_event_def neg_duration_in_range remove_if_expired_def Fire_def Let_def
          listeners_at_def)
  let ?timed = "TimeoutHandler (NewEventHandler 1 recorder) 5"
  have "Call (store (machine_with ?timed) 0) (reading 3) (world (machine_with ?timed)) =
          (None, ?timed, [reading 3])"
    by (simp add: machine_with_def NewEventHandler_def recorder_def reading_def)
  from listener_outcomes [OF this refl, where popIf = drop_all
         and made = 3 and now = 4 and asked = 10 and clk = "\<lambda>k. 11 + int k"]
  have 7: "listeners (sink (fst (listener_goroutine drop_all 3 4 10 (\<lambda>k. 11 + int k) 0 (reading 3)
            (machine_with ?timed)))) ''temp'' = Some [1]"
    by (simp add: reading_def machine_with_def without_handler_def NewEventHandler_def)
  from 1 2 3 4 5 6 7 show ?thesis by blast
qed

section \<open>Properties of the namespaced view\<close>

lemma Prefixed_RemoveEventListener_returns_never:
  "Prefixed_RemoveEventListener es eventType handler s = Some s' \<Longrightarrow> False"
proof (rule Prefixed_RemoveEventListener.raw_induct [where P = "\<lambda>es eventType handler s y. False"])
  show "Prefixed_RemoveEventListener es eventType handler s = Some s' \<Longrightarrow>
        Prefixed_RemoveEventListener es eventType handler s = Some s'"
    by assumption
next
  fix f :: "('a, 'b) PrefixedEventSource \<Rightarrow> string \<Rightarrow> 'b \<Rightarrow> 'a \<Rightarrow> 'a option"
  fix es eventType handler s y
  assume "\<And>eventType handler s b y. f eventType handler s b = Some y \<Longrightarrow> False"
    and "f es (prefix es @ eventType) handler s = Some y"
  then show False by blast
qed

lemma Prefixed_Once_returns_never:
  "Prefixed_Once es eventType handler s = Some s' \<Longrightarrow> False"
proof (rule Prefixed_Once.raw_induct [where P = "\<lambda>es eventType handler s y. False"])
  show "Prefixed_Once es eventType handler s = Some s' \<Longrightarrow>
        Prefixed_Once es eventType handler s = Some s'"
    by assumption
next
  fix f :: "('a, 'b) PrefixedEventSource \<Rightarrow> string \<Rightarrow> 'b \<Rightarrow> 'a \<Rightarrow> 'a option"
  fix es eventType handler s y
  assume "\<And>eventType handler s b y. f eventType handler s b = Some y \<Longrightarrow> False"
    and "f es (prefix es @ eventType) handler s = Some y"
  then show False by blast
qed

text \<open>
  The methods of the view that name the embedded sink do what the specification says:
  one call of the same method of the underlying sink, with the prefix and the separator
  put before the event type.
\<close>

lemma prefixed_delegation:
  "Prefixed_AddEventListener (NewPrefixedEventSource p snk) t handler s =
     Some (sink_AddEventListener snk (p @ ''-'' @ t) handler s)
   \<and> Prefixed_Emit (NewPrefixedEventSource p snk) t data s =
     Some (sink_Emit snk (p @ ''-'' @ t) data s)
   \<and> Prefixed_Fire (NewPrefixedEventSource p snk) ev s =
     Some (sink_Fire snk (As ev (p @ ''-'' @ GetType ev)) s)
   \<and> Prefixed_RegisterEventType (NewPrefixedEventSource p snk) ev s =
     Some (sink_RegisterEventType snk (As ev (p @ ''-'' @ GetType ev)) s)"
  by (simp add: Prefixed_AddEventListener_def Prefixed_Emit_def Prefixed_Fire_def
        Prefixed_RegisterEventType_def Prefixed_As_def NewPrefixedEventSource_def)

text \<open>
  C3. On a view with prefix \<^verbatim>\<open>ns\<close> over any sink, \<open>RemoveEventListener\<close> and \<open>Once\<close>
  for the type \<^verbatim>\<open>x\<close> do not return: each calls itself with a longer event type, and
  never calls the underlying sink.
\<close>

theorem prefixed_remove_and_once_do_not_return:
  "Prefixed_RemoveEventListener (NewPrefixedEventSource ''ns'' snk) ''x'' handler s = None
   \<and> Prefixed_Once (NewPrefixedEventSource ''ns'' snk) ''x'' handler s = None"
proof
  show "Prefixed_RemoveEventListener (NewPrefixedEventSource ''ns'' snk) ''x'' handler s = None"
    using Prefixed_RemoveEventListener_returns_never
            [of "NewPrefixedEventSource ''ns'' snk" "''x''" handler s]
    by (cases "Prefixed_RemoveEventListener (NewPrefixedEventSource ''ns'' snk) ''x'' handler s")
       auto
  show "Prefixed_Once (NewPrefixedEventSource ''ns'' snk) ''x'' handler s = None"
    using Prefixed_Once_returns_never [of "NewPrefixedEventSource ''ns'' snk" "''x''" handler s]
    by (cases "Prefixed_Once (NewPrefixedEventSource ''ns'' snk) ''x'' handler s") auto
qed

end
